theory Spec2Isabelle
  imports Complex_Main
begin

section \<open>Values kept in the hierarchical store\<close>

text \<open>
  A value read from the store or from an upstream body is a JSON value. A JavaScript
  number is modelled as an exact rational: the rounding error of IEEE doubles, NaN and
  the infinities are outside the model. A JavaScript object is an association list in
  insertion order; the keys of an object are pairwise distinct (\<open>wf_obj\<close>).
\<close>

datatype json =
    JNull
  | JBool bool
  | JNum rat
  | JStr string
  | JArr "json list"
  | JObj "(string \<times> json) list"

type_synonym obj = "(string \<times> json) list"

definition wf_obj :: "obj \<Rightarrow> bool" where
  "wf_obj o' = distinct (map fst o')"

text \<open>\<open>{ ...roles, [k]: v }\<close>: an existing key keeps its place, a new key is appended.\<close>

fun obj_set :: "obj \<Rightarrow> string \<Rightarrow> json \<Rightarrow> obj" where
  "obj_set [] k v = [(k, v)]"
| "obj_set ((k', v') # rest) k v =
     (if k' = k then (k, v) # rest else (k', v') # obj_set rest k v)"

text \<open>\<open>delete updated[k]\<close> on a copy of the object.\<close>

fun obj_delete :: "obj \<Rightarrow> string \<Rightarrow> obj" where
  "obj_delete [] k = []"
| "obj_delete ((k', v') # rest) k =
     (if k' = k then obj_delete rest k else (k', v') # obj_delete rest k)"

text \<open>\<open>currentRoles ?? {}\<close>: a missing node reads as the empty object.\<close>

definition or_empty :: "obj option \<Rightarrow> obj" where
  "or_empty n = (case n of None \<Rightarrow> [] | Some r \<Rightarrow> r)"

section \<open>The store's transaction primitive\<close>

text \<open>
  \<open>ref.transaction(update)\<close> of the database SDK. The update function runs first on
  the value the client holds for the node; a handler attaches no listener, so its client
  holds none and the first run is on \<open>null\<close>. Returning \<open>undefined\<close> (\<open>TxAbort\<close>) there
  aborts the transaction at once, without a read of the server: nothing is written and
  \<open>committed = false\<close>. A returned value (\<open>null\<close>, here \<open>TxWrite None\<close>, deletes the
  node) is sent to the server together with the value it was computed from. The server
  commits it when the node still holds that value; otherwise it answers with the value
  the node holds now, and the update function runs again on that value, aborting or
  committing. So one call is one atomic step on the node, and concurrent calls are a
  sequence of such steps. A transaction that throws (\<open>throws = True\<close>) leaves the node as
  it was.
\<close>

datatype 'a tx_update = TxAbort | TxWrite "'a option"

datatype tx_outcome = TxThrew | TxCommitted bool

definition transaction ::
  "bool \<Rightarrow> ('a option \<Rightarrow> 'a tx_update) \<Rightarrow> 'a option \<Rightarrow> tx_outcome \<times> 'a option" where
  "transaction throws update current =
     (if throws then (TxThrew, current)
      else case update None of
             TxAbort \<Rightarrow> (TxCommitted False, current)
           | TxWrite v \<Rightarrow>
              (case current of
                 None \<Rightarrow> (TxCommitted True, v)
               | Some c \<Rightarrow>
                  (case update (Some c) of
                     TxAbort \<Rightarrow> (TxCommitted False, current)
                   | TxWrite v' \<Rightarrow> (TxCommitted True, v'))))"

section \<open>Role state: owner bootstrap and role update\<close>

definition VALID_ROLES :: "string list" where
  "VALID_ROLES = [''owner'', ''manager'', ''shift_manager'', ''viewer'']"

text \<open>The test \<open>/[.#$\[\]\/]/\<close> on an identifier.\<close>

definition RTDB_FORBIDDEN :: "string \<Rightarrow> bool" where
  "RTDB_FORBIDDEN s = (\<exists>c \<in> set s. c \<in> set ''.#$[]/'')"

text \<open>
  The uids whose entry in the roles object is exactly the string \<open>owner\<close>
  (\<open>Object.entries(roles).filter(([, r]) => r === "owner").map(([uid]) => uid)\<close>).
\<close>

definition owners_of :: "obj \<Rightarrow> string list" where
  "owners_of roles = map fst (filter (\<lambda>(uid, r). r = JStr ''owner'') roles)"

text \<open>The update function of the bootstrap transaction (bootstrap-owner.js, step 7).\<close>

definition bootstrap_update :: "string \<Rightarrow> obj option \<Rightarrow> obj tx_update" where
  "bootstrap_update uid currentRoles =
     (let roles = or_empty currentRoles;
          owners = filter (\<lambda>r. r = JStr ''owner'') (map snd roles)
      in if length owners > 0 then TxAbort
         else TxWrite (Some (obj_set roles uid (JStr ''owner''))))"

text \<open>
  The bootstrap handler from its body validation on (steps 5 to 8; the three tests of
  step 5 all answer 400), for a verified caller
  \<open>caller\<close> that passed the feature flag and the rate limits: those earlier steps answer
  before the store is touched. The result is the HTTP status and the roles node after the
  call. The membership and audit write of step 8 does not touch the roles node and its
  failure does not change the answer.
\<close>

definition bootstrap_body_invalid :: "string \<Rightarrow> string \<Rightarrow> bool" where
  "bootstrap_body_invalid tenantId uid =
     (tenantId = [] \<or> length tenantId > 128
      \<or> uid = [] \<or> length uid > 128
      \<or> RTDB_FORBIDDEN tenantId \<or> RTDB_FORBIDDEN uid)"

definition bootstrap_owner ::
  "bool \<Rightarrow> string \<Rightarrow> string \<Rightarrow> string \<Rightarrow> obj option \<Rightarrow> nat \<times> obj option" where
  "bootstrap_owner throws caller tenantId uid node =
     (if bootstrap_body_invalid tenantId uid then (400, node)
      else if caller \<noteq> uid then (403, node)
      else case transaction throws (bootstrap_update uid) node of
             (TxThrew, node') \<Rightarrow> (503, node')
           | (TxCommitted False, node') \<Rightarrow> (409, node')
           | (TxCommitted True, node') \<Rightarrow> (200, node'))"

text \<open>
  The update function of the role-update transaction (step 5 of the role handler), run
  when the requested role is not \<open>owner\<close>; \<open>role = None\<close> is the request's \<open>null\<close>.
\<close>

definition role_update :: "string \<Rightarrow> string option \<Rightarrow> obj option \<Rightarrow> obj tx_update" where
  "role_update targetUid role currentRoles =
     (let roles = or_empty currentRoles;
          owners = owners_of roles
      in if length owners = 1 \<and> owners ! 0 = targetUid then TxAbort
         else case role of
                None \<Rightarrow> TxWrite (Some (obj_delete roles targetUid))
              | Some r \<Rightarrow> TxWrite (Some (obj_set roles targetUid (JStr r))))"

text \<open>
  \<open>db.ref("tenants/<t>/roles/<uid>").set(role)\<close> seen from the roles node: the child
  \<open>uid\<close> is written, the other children stay; a failed write changes nothing.
\<close>

definition set_child :: "bool \<Rightarrow> string \<Rightarrow> json \<Rightarrow> obj option \<Rightarrow> bool \<times> obj option" where
  "set_child fails k v node =
     (if fails then (False, node) else (True, Some (obj_set (or_empty node) k v)))"

text \<open>A thrown \<open>{status, msg}\<close>.\<close>

type_synonym http_error = "nat \<times> string"

text \<open>
  The role handler from its body validation on (steps 3 to 6); the four tests of step 3
  all answer 400. \<open>access\<close> is the outcome
  of \<open>requireTenantAccess(claims.uid, tenantId, "owner")\<close>; \<open>fails\<close> says that the store
  operation of step 5 throws. The result is the HTTP status and the roles node after the
  call.
\<close>

definition role_body_invalid :: "string \<Rightarrow> string \<Rightarrow> string option \<Rightarrow> bool" where
  "role_body_invalid tenantId targetUid role =
     (tenantId = [] \<or> length tenantId > 128
      \<or> targetUid = [] \<or> length targetUid > 128
      \<or> (case role of None \<Rightarrow> False | Some r \<Rightarrow> r \<notin> set VALID_ROLES)
      \<or> RTDB_FORBIDDEN tenantId \<or> RTDB_FORBIDDEN targetUid)"

definition admin_roles ::
  "bool \<Rightarrow> (http_error + string) \<Rightarrow> string \<Rightarrow> string \<Rightarrow> string option \<Rightarrow> obj option
     \<Rightarrow> nat \<times> obj option" where
  "admin_roles fails access tenantId targetUid role node =
     (if role_body_invalid tenantId targetUid role then (400, node)
      else case access of
        Inl (status, msg) \<Rightarrow> ((if status = 0 then 403 else status), node)
      | Inr _ \<Rightarrow>
         (if role \<noteq> Some ''owner'' then
            (case transaction fails (role_update targetUid role) node of
               (TxThrew, node') \<Rightarrow> (503, node')
             | (TxCommitted False, node') \<Rightarrow> (409, node')
             | (TxCommitted True, node') \<Rightarrow> (200, node'))
          else
            (case set_child fails targetUid (JStr ''owner'') node of
               (False, node') \<Rightarrow> (502, node')
             | (True, node') \<Rightarrow> (200, node'))))"

text \<open>
  Operations on the role state of all tenants. Every tenant has its own roles node; an
  operation names the tenant it works on.
\<close>

datatype role_op =
    Bootstrap bool string string string
  | UpdateRole bool "http_error + string" string string "string option"

type_synonym roles_db = "string \<Rightarrow> obj option"

fun op_tenant :: "role_op \<Rightarrow> string" where
  "op_tenant (Bootstrap throws caller tenantId uid) = tenantId"
| "op_tenant (UpdateRole fails access tenantId targetUid role) = tenantId"

fun run_op :: "role_op \<Rightarrow> obj option \<Rightarrow> nat \<times> obj option" where
  "run_op (Bootstrap throws caller tenantId uid) node =
     bootstrap_owner throws caller tenantId uid node"
| "run_op (UpdateRole fails access tenantId targetUid role) node =
     admin_roles fails access tenantId targetUid role node"

definition step :: "roles_db \<Rightarrow> role_op \<Rightarrow> nat \<times> roles_db" where
  "step db op' =
     (case run_op op' (db (op_tenant op')) of
        (status, node') \<Rightarrow> (status, db(op_tenant op' := node')))"

text \<open>A sequence of operations, with the status each one answered.\<close>

fun run_ops :: "roles_db \<Rightarrow> role_op list \<Rightarrow> nat list \<times> roles_db" where
  "run_ops db [] = ([], db)"
| "run_ops db (op' # ops) =
     (case step db op' of
        (status, db') \<Rightarrow> (case run_ops db' ops of (sts, db'') \<Rightarrow> (status # sts, db'')))"

definition owner_set :: "roles_db \<Rightarrow> string \<Rightarrow> string set" where
  "owner_set db t = set (owners_of (or_empty (db t)))"

definition wf_db :: "roles_db \<Rightarrow> bool" where
  "wf_db db = (\<forall>t. wf_obj (or_empty (db t)))"

text \<open>The keys of an object whose value satisfies a test.\<close>

definition sel :: "(json \<Rightarrow> bool) \<Rightarrow> obj \<Rightarrow> string set" where
  "sel P o' = {k. \<exists>v. (k, v) \<in> set o' \<and> P v}"

section \<open>Tenant access check\<close>

definition ROLE_RANK :: "string \<Rightarrow> nat option" where
  "ROLE_RANK =
     map_of [(''owner'', 4), (''manager'', 3), (''shift_manager'', 2), (''viewer'', 1)]"

text \<open>\<open>(ROLE_RANK[role] || 0) >= (ROLE_RANK[minRole] || 999)\<close>.\<close>

definition hasRole :: "string \<Rightarrow> string \<Rightarrow> bool" where
  "hasRole role minRole =
     ((case ROLE_RANK minRole of None \<Rightarrow> 999 | Some m \<Rightarrow> if m = 0 then 999 else m)
        \<le> (case ROLE_RANK role of None \<Rightarrow> 0 | Some r \<Rightarrow> r))"

text \<open>
  What \<open>withTimeout(db.ref(path).get(), 3_000, msg)\<close> settles to: the value of the
  snapshot (\<open>null\<close> for a missing node), the rejection of the read, or the rejection
  raised by the 3000 ms timer when it fires before the read has settled.
\<close>

datatype 'a read = Value 'a | ReadFailed | TimedOut

definition member_path :: "string \<Rightarrow> string \<Rightarrow> string" where
  "member_path tenantId uid = ''tenants/'' @ tenantId @ ''/members/'' @ uid"

definition role_path :: "string \<Rightarrow> string \<Rightarrow> string" where
  "role_path tenantId uid = ''tenants/'' @ tenantId @ ''/roles/'' @ uid"

text \<open>The input validation of \<open>requireTenantAccess\<close>: the error thrown, if any.\<close>

definition access_input_error :: "string \<Rightarrow> string \<Rightarrow> string \<Rightarrow> http_error option" where
  "access_input_error uid tenantId minRole =
     (if uid = [] \<or> length uid > 128 then Some (400, ''invalid uid'')
      else if tenantId = [] \<or> length tenantId > 128 then Some (400, ''invalid tenantId'')
      else if minRole \<notin> set VALID_ROLES then Some (400, ''invalid minRole'')
      else if RTDB_FORBIDDEN uid \<or> RTDB_FORBIDDEN tenantId
        then Some (400, ''invalid characters in id'')
      else None)"

text \<open>
  \<open>requireTenantAccess(uid, tenantId, minRole)\<close>; \<open>db\<close> gives, for a path, what the
  bounded read of that path settles to. \<open>Inl\<close> is the thrown \<open>{status, msg}\<close>, \<open>Inr\<close>
  the role returned.
\<close>

definition requireTenantAccess ::
  "(string \<Rightarrow> json read) \<Rightarrow> string \<Rightarrow> string \<Rightarrow> string \<Rightarrow> http_error + string" where
  "requireTenantAccess db uid tenantId minRole =
     (case access_input_error uid tenantId minRole of
        Some e \<Rightarrow> Inl e
      | None \<Rightarrow>
         (case db (member_path tenantId uid) of
            ReadFailed \<Rightarrow> Inl (503, ''authorization check unavailable'')
          | TimedOut \<Rightarrow> Inl (503, ''authorization check unavailable'')
          | Value memberVal \<Rightarrow>
             if memberVal \<noteq> JBool True then Inl (403, ''not a tenant member'')
             else
              (case db (role_path tenantId uid) of
                 ReadFailed \<Rightarrow> Inl (503, ''authorization check unavailable'')
               | TimedOut \<Rightarrow> Inl (503, ''authorization check unavailable'')
               | Value role \<Rightarrow>
                  (case role of
                     JStr r \<Rightarrow>
                       if r \<notin> set VALID_ROLES then Inl (403, ''no valid role assigned'')
                       else if \<not> hasRole r minRole then Inl (403, ''insufficient role'')
                       else Inr r
                   | _ \<Rightarrow> Inl (403, ''no valid role assigned'')))))"

section \<open>The lease lock of the backfill handler\<close>

text \<open>
  The record kept at \<open>tenants/<t>/analytics/_lock/backfill\<close>. Times are milliseconds
  since the epoch, as \<open>Date.now()\<close> returns them.
\<close>

record lock_rec =
  lockId :: string
  expiresAt :: int

definition TTL_MS :: int where
  "TTL_MS = 10 * 60 * 1000"

text \<open>
  The update function of \<open>acquireLock\<close> for the token \<open>token\<close> generated by this attempt.
  \<open>Date.now()\<close> is read once in the test (\<open>now\<close>) and once more when the record is
  built (\<open>now'\<close>). A stored record is an object, hence truthy; \<open>current.expiresAt\<close> is
  truthy when it is not 0.
\<close>

definition acquire_update :: "string \<Rightarrow> int \<Rightarrow> int \<Rightarrow> lock_rec option \<Rightarrow> lock_rec tx_update" where
  "acquire_update token now now' current =
     (if (case current of
            None \<Rightarrow> False
          | Some c \<Rightarrow> expiresAt c \<noteq> 0 \<and> now < expiresAt c)
      then TxAbort
      else TxWrite (Some \<lparr>lockId = token, expiresAt = now' + TTL_MS\<rparr>))"

text \<open>
  \<open>acquireLock(ref)\<close>: the token when the transaction committed, \<open>null\<close> (\<open>None\<close>) when
  it aborted or threw; with the lock node after the call.
\<close>

definition acquireLock ::
  "bool \<Rightarrow> string \<Rightarrow> int \<Rightarrow> int \<Rightarrow> lock_rec option \<Rightarrow> string option \<times> lock_rec option" where
  "acquireLock throws token now now' node =
     (case transaction throws (acquire_update token now now') node of
        (TxCommitted True, node') \<Rightarrow> (Some token, node')
      | (_, node') \<Rightarrow> (None, node'))"

definition release_update :: "string \<Rightarrow> lock_rec option \<Rightarrow> lock_rec tx_update" where
  "release_update token current =
     (case current of
        None \<Rightarrow> TxAbort
      | Some c \<Rightarrow> if lockId c \<noteq> token then TxAbort else TxWrite None)"

text \<open>
  \<open>releaseLock(ref, lockId)\<close>: the lock node after the call; an error is only logged.
  The update function is the code's; what its transaction does with it is the store's.
\<close>

definition releaseLock :: "bool \<Rightarrow> string \<Rightarrow> lock_rec option \<Rightarrow> lock_rec option" where
  "releaseLock throws token node = snd (transaction throws (release_update token) node)"

section \<open>Dates\<close>

text \<open>The test \<open>/^\d{4}-\d{2}-\d{2}$/\<close>.\<close>

definition is_digit :: "char \<Rightarrow> bool" where
  "is_digit c = (c \<in> set ''0123456789'')"

definition date_shape :: "string \<Rightarrow> bool" where
  "date_shape s =
     (case s of
        [y1, y2, y3, y4, s1, m1, m2, s2, d1, d2] \<Rightarrow>
          is_digit y1 \<and> is_digit y2 \<and> is_digit y3 \<and> is_digit y4 \<and> s1 = CHR ''-''
          \<and> is_digit m1 \<and> is_digit m2 \<and> s2 = CHR ''-'' \<and> is_digit d1 \<and> is_digit d2
      | _ \<Rightarrow> False)"

definition digit_val :: "char \<Rightarrow> int" where
  "digit_val c = int (of_char c) - 48"

definition number_of_digits :: "string \<Rightarrow> int" where
  "number_of_digits s = foldl (\<lambda>acc c. 10 * acc + digit_val c) 0 s"

text \<open>
  The number of days from 1970-01-01 to the first day of month \<open>m\<close> of year \<open>y\<close> plus
  \<open>d - 1\<close>, in the proleptic Gregorian calendar the Date object uses.
\<close>

definition days_from_civil :: "int \<Rightarrow> int \<Rightarrow> int \<Rightarrow> int" where
  "days_from_civil y m d =
     (let y' = (if m \<le> 2 then y - 1 else y);
          era = y' div 400;
          yoe = y' - era * 400;
          doy = (153 * (if m > 2 then m - 3 else m + 9) + 2) div 5 + d - 1;
          doe = yoe * 365 + yoe div 4 - yoe div 100 + doy
      in era * 146097 + doe - 719468)"

text \<open>Year, month and day of a day number.\<close>

definition civil_from_days :: "int \<Rightarrow> int \<times> int \<times> int" where
  "civil_from_days z =
     (let z' = z + 719468;
          era = z' div 146097;
          doe = z' - era * 146097;
          yoe = (doe - doe div 1460 + doe div 36524 - doe div 146096) div 365;
          doy = doe - (365 * yoe + yoe div 4 - yoe div 100);
          mp = (5 * doy + 2) div 153;
          d = doy - (153 * mp + 2) div 5 + 1;
          m = (if mp < 10 then mp + 3 else mp - 9);
          y = yoe + era * 400
      in (if m \<le> 2 then y + 1 else y, m, d))"

text \<open>
  \<open>new Date(date + "T12:00:00Z")\<close> for a string of the shape \<open>YYYY-MM-DD\<close>, the shape the
  handlers check before they use a date. The Date object is its time value, here the day
  number of that noon; \<open>None\<close> is the invalid date (time value NaN). The engine takes a
  month from 1 to 12 and a day from 1 to 31 and carries a day beyond the end of the month
  into the next month. A string of another shape is not covered and reads as invalid.
\<close>

definition new_Date :: "string \<Rightarrow> int option" where
  "new_Date date =
     (if \<not> date_shape date then None
      else let y = number_of_digits (take 4 date);
               m = number_of_digits (take 2 (drop 5 date));
               d = number_of_digits (take 2 (drop 8 date))
           in if 1 \<le> m \<and> m \<le> 12 \<and> 1 \<le> d \<and> d \<le> 31
              then Some (days_from_civil y m 1 + (d - 1)) else None)"

text \<open>\<open>getUTCDay()\<close>: 0 is Sunday; 1970-01-01 was a Thursday.\<close>

definition getUTCDay :: "int \<Rightarrow> nat" where
  "getUTCDay n = nat ((n + 4) mod 7)"

text \<open>\<open>getUTCMonth()\<close>: 0 is January.\<close>

definition getUTCMonth :: "int \<Rightarrow> nat" where
  "getUTCMonth n = nat (fst (snd (civil_from_days n)) - 1)"

text \<open>The decimal digits of a number, as \<open>String(n)\<close> prints them.\<close>

fun digits :: "nat \<Rightarrow> string" where
  "digits n =
     (if n < 10 then [''0123456789'' ! n]
      else digits (n div 10) @ [''0123456789'' ! (n mod 10)])"

declare digits.simps [simp del]






section \<open>Calendar features\<close>

definition IL_HOLIDAYS :: "string list" where
  "IL_HOLIDAYS =
    [''2024-10-02'', ''2024-10-03'',
     ''2024-10-11'',
     ''2024-10-16'', ''2024-10-17'',
     ''2024-10-23'', ''2024-10-24'',
     ''2024-12-25'', ''2024-12-26'', ''2024-12-27'', ''2024-12-28'',
     ''2024-12-29'', ''2024-12-30'', ''2024-12-31'', ''2025-01-01'',
     ''2025-03-13'', ''2025-03-14'',
     ''2025-04-12'', ''2025-04-13'',
     ''2025-04-14'', ''2025-04-15'', ''2025-04-16'', ''2025-04-17'',
     ''2025-04-18'', ''2025-04-19'',
     ''2025-05-05'',
     ''2025-05-12'',
     ''2025-05-13'',
     ''2025-05-16'',
     ''2025-06-01'', ''2025-06-02'',
     ''2025-08-03'',
     ''2025-09-22'', ''2025-09-23'',
     ''2025-10-01'',
     ''2025-10-06'', ''2025-10-07'',
     ''2025-10-08'', ''2025-10-09'', ''2025-10-10'', ''2025-10-11'', ''2025-10-12'',
     ''2025-10-13'', ''2025-10-14'',
     ''2025-12-14'', ''2025-12-15'', ''2025-12-16'', ''2025-12-17'',
     ''2025-12-18'', ''2025-12-19'', ''2025-12-20'', ''2025-12-21'',
     ''2026-03-02'', ''2026-03-03'',
     ''2026-03-31'', ''2026-04-01'',
     ''2026-04-02'', ''2026-04-03'', ''2026-04-04'', ''2026-04-05'',
     ''2026-04-06'', ''2026-04-07'',
     ''2026-04-20'',
     ''2026-04-28'', ''2026-04-29'',
     ''2026-05-19'', ''2026-05-20'',
     ''2026-07-23'',
     ''2026-09-10'', ''2026-09-11'',
     ''2026-09-19'',
     ''2026-09-24'', ''2026-09-25'',
     ''2026-09-26'', ''2026-09-27'', ''2026-09-28'', ''2026-09-29'', ''2026-09-30'',
     ''2026-10-01'', ''2026-10-02'']"

definition IL_HOLIDAY_EVES :: "string list" where
  "IL_HOLIDAY_EVES =
    [''2024-10-01'', ''2024-10-10'', ''2024-10-15'', ''2024-10-22'',
     ''2025-03-12'', ''2025-04-11'', ''2025-04-17'', ''2025-05-11'', ''2025-05-31'',
     ''2025-08-02'', ''2025-09-21'', ''2025-09-30'', ''2025-10-05'', ''2025-10-12'',
     ''2026-03-01'', ''2026-03-30'', ''2026-04-05'', ''2026-04-27'', ''2026-05-18'',
     ''2026-07-22'', ''2026-09-09'', ''2026-09-18'', ''2026-09-23'', ''2026-09-30'']"

definition NEW_YEAR_EVES :: "string list" where
  "NEW_YEAR_EVES = [''2024-12-31'', ''2025-12-31'', ''2026-12-31'']"

record calendar =
  dow :: "nat option"
  weekend :: bool
  month :: "nat option"
  holiday :: bool
  holiday_eve :: bool
  new_year_eve :: bool

text \<open>\<open>buildCalendar(date)\<close>; \<open>None\<close> in \<open>dow\<close> and \<open>month\<close> is NaN.\<close>

definition buildCalendar :: "string \<Rightarrow> calendar" where
  "buildCalendar date =
     (let d = new_Date date;
          dow = map_option getUTCDay d
      in \<lparr>dow = dow,
          weekend = (dow = Some 5 \<or> dow = Some 6),
          month = map_option (\<lambda>n. getUTCMonth n + 1) d,
          holiday = (date \<in> set IL_HOLIDAYS),
          holiday_eve = (date \<in> set IL_HOLIDAY_EVES \<or> date \<in> set NEW_YEAR_EVES),
          new_year_eve = (date \<in> set NEW_YEAR_EVES)\<rparr>)"

text \<open>
  \<open>date\<close> is the calendar day before \<open>h\<close>: both are dates and their day numbers differ
  by one.
\<close>

definition day_before :: "string \<Rightarrow> string \<Rightarrow> bool" where
  "day_before date h =
     (case (new_Date date, new_Date h) of
        (Some a, Some b) \<Rightarrow> a + 1 = b
      | _ \<Rightarrow> False)"

section \<open>Upstream fetchers\<close>

text \<open>
  What \<open>fetchWithTimeout(url, options, ms)\<close> followed by \<open>res.json()\<close> can give: the
  fetch rejects (\<open>NetworkError\<close>); the abort timer fires first and the fetch rejects with
  an \<open>AbortError\<close> (\<open>Aborted\<close>); or there is a response with a status and a body, which
  \<open>res.json()\<close> either parses or rejects with an error of some message.
\<close>

datatype body = Unparsable string | Parsed json

datatype http_result = NetworkError | Aborted | Response nat body

text \<open>\<open>res.ok\<close>.\<close>

definition ok :: "nat \<Rightarrow> bool" where
  "ok st = (200 \<le> st \<and> st \<le> 299)"

text \<open>
  A thrown value: the structured \<open>{source, reason}\<close> of the fetchers, or another
  exception with its message.
\<close>

datatype fetch_error = Thrown string string | JsError string

text \<open>
  The message of the TypeError the engine raises for a property read on \<open>null\<close>, and of
  the TypeError for a second read of a response body.
\<close>

definition null_read :: "string \<Rightarrow> string" where
  "null_read p = ''Cannot read properties of null (reading '' @ [CHR 0x27] @ p @ [CHR 0x27] @ '')''"

definition body_used :: string where
  "body_used = ''Body is unusable: Body has already been read''"

text \<open>
  A property name that is an array index: decimal digits without a leading zero.
\<close>

definition index_of_key :: "string \<Rightarrow> nat option" where
  "index_of_key k =
     (if k \<noteq> [] \<and> (\<forall>c \<in> set k. is_digit c) \<and> (k = ''0'' \<or> hd k \<noteq> CHR ''0'')
      then Some (nat (number_of_digits k)) else None)"

text \<open>
  \<open>v[k]\<close> for a value \<open>v\<close> that is not \<open>null\<close>, and for the property names the fetchers
  read (field names and indices); \<open>None\<close> is \<open>undefined\<close>.
\<close>

fun get_prop :: "json \<Rightarrow> string \<Rightarrow> json option" where
  "get_prop (JObj kvs) k = map_of kvs k"
| "get_prop (JArr xs) k =
     (case index_of_key k of
        Some i \<Rightarrow> if i < length xs then Some (xs ! i) else None
      | None \<Rightarrow> None)"
| "get_prop (JStr s) k =
     (case index_of_key k of
        Some i \<Rightarrow> if i < length s then Some (JStr [s ! i]) else None
      | None \<Rightarrow> None)"
| "get_prop _ k = None"

text \<open>\<open>a?.[k]\<close> and \<open>a ?? b\<close>.\<close>

definition opt_prop :: "json option \<Rightarrow> string \<Rightarrow> json option" where
  "opt_prop a k = (case a of None \<Rightarrow> None | Some JNull \<Rightarrow> None | Some v \<Rightarrow> get_prop v k)"

definition nullish :: "json option \<Rightarrow> json option \<Rightarrow> json option" where
  "nullish a b = (case a of None \<Rightarrow> b | Some JNull \<Rightarrow> b | Some v \<Rightarrow> Some v)"

text \<open>
  \<open>numOrNull\<close>. \<open>toNumber\<close> stands for the built-in \<open>Number(v)\<close>, \<open>None\<close> being NaN; the
  result \<open>None\<close> is \<open>null\<close>.
\<close>

definition numOrNull :: "(json \<Rightarrow> rat option) \<Rightarrow> json option \<Rightarrow> rat option" where
  "numOrNull toNumber v =
     (case v of None \<Rightarrow> None | Some JNull \<Rightarrow> None | Some j \<Rightarrow> toNumber j)"

definition or_zero :: "rat option \<Rightarrow> rat" where
  "or_zero x = (case x of None \<Rightarrow> 0 | Some r \<Rightarrow> r)"

definition HOURS :: "string list" where
  "HOURS = [''08'', ''09'', ''10'', ''11'', ''12'', ''13'', ''14'', ''15'', ''16'', ''17'',
            ''18'', ''19'', ''20'', ''21'']"

definition extractHourly :: "(json \<Rightarrow> rat option) \<Rightarrow> json option \<Rightarrow> (string \<times> rat) list" where
  "extractHourly toNumber hourlyRaw =
     map (\<lambda>h. (h, or_zero (numOrNull toNumber
                  (nullish (nullish (opt_prop hourlyRaw h) (opt_prop hourlyRaw (h @ '':00'')))
                           (opt_prop hourlyRaw (digits (nat (number_of_digits h))))))))
         HOURS"

record beecomm_doc =
  bc_revenue_total :: "rat option"
  bc_tickets :: "rat option"
  bc_revenue_dine_in :: "rat option"
  bc_revenue_delivery :: "rat option"
  bc_revenue_takeaway :: "rat option"
  bc_hourly :: "(string \<times> rat) list"

definition BEECOMM_BASE :: string where "BEECOMM_BASE = ''https://api.beecomm.co.il''"
definition TABIT_BASE :: string where "TABIT_BASE = ''https://api.tabit.cloud''"
definition WEATHER_BASE :: string where "WEATHER_BASE = ''https://api.open-meteo.com''"
definition OREF_URL :: string where
  "OREF_URL = ''https://www.oref.org.il/WarningMessages/History/AlertsHistory.json''"

text \<open>
  Each fetcher takes the answer of the network to its request and gives the URLs it
  requested and what its promise settles to (\<open>Inl\<close>: rejected). A checked date consists
  of digits and hyphens, which \<open>encodeURIComponent\<close> leaves as they are.
\<close>

definition fetchBeecommDaily ::
  "(json \<Rightarrow> rat option) \<Rightarrow> http_result \<Rightarrow> string \<Rightarrow> string list \<times> (fetch_error + beecomm_doc)" where
  "fetchBeecommDaily toNumber res date =
     ([BEECOMM_BASE @ ''/v1/reports/daily-summary?date='' @ date],
      case res of
        NetworkError \<Rightarrow> Inl (Thrown ''beecomm'' ''network'')
      | Aborted \<Rightarrow> Inl (Thrown ''beecomm'' ''timeout'')
      | Response st b \<Rightarrow>
          if \<not> ok st then Inl (Thrown ''beecomm'' (''http_'' @ digits st))
          else (case b of
            Unparsable msg \<Rightarrow> Inl (JsError msg)
          | Parsed raw \<Rightarrow>
              if raw = JNull then Inl (JsError (null_read ''total_sales''))
              else Inr
                \<lparr>bc_revenue_total =
                   numOrNull toNumber (nullish (get_prop raw ''total_sales'') (get_prop raw ''totalSales'')),
                 bc_tickets =
                   numOrNull toNumber
                     (nullish (get_prop raw ''transaction_count'') (get_prop raw ''transactionCount'')),
                 bc_revenue_dine_in =
                   numOrNull toNumber
                     (nullish (nullish (get_prop raw ''dine_in_sales'') (get_prop raw ''dineInSales''))
                        (Some JNull)),
                 bc_revenue_delivery =
                   numOrNull toNumber
                     (nullish (nullish (get_prop raw ''delivery_sales'') (get_prop raw ''deliverySales''))
                        (Some JNull)),
                 bc_revenue_takeaway =
                   numOrNull toNumber
                     (nullish (nullish (get_prop raw ''takeaway_sales'') (get_prop raw ''takeawaySales''))
                        (Some JNull)),
                 bc_hourly =
                   extractHourly toNumber
                     (nullish (nullish (get_prop raw ''hourly'') (get_prop raw ''hourlyBreakdown''))
                        (Some JNull))\<rparr>))"

record staffing_doc =
  total_hours :: "rat option"

text \<open>
  \<open>fetchTabitHours\<close>; \<open>key\<close> is \<open>process.env.TABIT_API_KEY\<close>, falsy when unset or
  empty. The promise resolves to \<open>null\<close> (\<open>Inr None\<close>) on the soft failures.
\<close>

definition fetchTabitHours ::
  "(json \<Rightarrow> rat option) \<Rightarrow> string option \<Rightarrow> http_result \<Rightarrow> string
     \<Rightarrow> string list \<times> (fetch_error + staffing_doc option)" where
  "fetchTabitHours toNumber key res date =
     (if key = None \<or> key = Some [] then ([], Inr None)
      else
       ([TABIT_BASE @ ''/v1/labor/daily?date='' @ date],
        case res of
          NetworkError \<Rightarrow> Inr None
        | Aborted \<Rightarrow> Inr None
        | Response st b \<Rightarrow>
            if \<not> ok st then Inr None
            else (case b of
              Unparsable msg \<Rightarrow> Inl (JsError msg)
            | Parsed raw \<Rightarrow>
                if raw = JNull then Inl (JsError (null_read ''total_hours''))
                else Inr (Some
                  \<lparr>total_hours =
                     numOrNull toNumber
                       (nullish (get_prop raw ''total_hours'') (get_prop raw ''totalHours''))\<rparr>))))"

record weather_doc =
  rain_mm :: rat
  is_rain_day :: bool
  temp_avg :: rat
  wind_avg :: rat

definition daily_first :: "json \<Rightarrow> string \<Rightarrow> json option" where
  "daily_first raw k = opt_prop (opt_prop (get_prop raw ''daily'') k) ''0''"

definition fetchWeather ::
  "(json \<Rightarrow> rat option) \<Rightarrow> http_result \<Rightarrow> string \<Rightarrow> string list \<times> (fetch_error + weather_doc)" where
  "fetchWeather toNumber res date =
     ([WEATHER_BASE @ ''/v1/archive?latitude=32.434&longitude=34.919&start_date='' @ date
         @ ''&end_date='' @ date
         @ ''&daily=precipitation_sum%2Ctemperature_2m_mean%2Cwindspeed_10m_max''
         @ ''&timezone=Asia%2FJerusalem''],
      case res of
        NetworkError \<Rightarrow> Inl (Thrown ''weather'' ''network'')
      | Aborted \<Rightarrow> Inl (Thrown ''weather'' ''timeout'')
      | Response st b \<Rightarrow>
          if \<not> ok st then Inl (Thrown ''weather'' (''http_'' @ digits st))
          else (case b of
            Unparsable msg \<Rightarrow> Inl (JsError msg)
          | Parsed raw \<Rightarrow>
              if raw = JNull then Inl (JsError (null_read ''daily''))
              else
                let rain = or_zero (numOrNull toNumber (daily_first raw ''precipitation_sum''))
                in Inr \<lparr>rain_mm = rain,
                        is_rain_day = (rain > 1),
                        temp_avg = or_zero (numOrNull toNumber (daily_first raw ''temperature_2m_mean'')),
                        wind_avg = or_zero (numOrNull toNumber (daily_first raw ''windspeed_10m_max''))\<rparr>))"

record alerts_doc =
  alert_count :: nat
  alert_minutes :: nat
  is_alert_day :: bool

text \<open>
  \<open>fetchOrefAlerts\<close>. The body is read by \<open>Array.isArray(await res.json())\<close>; for an
  array the fetcher reads the body again, \<open>await res.json()\<close>, and a body that has been
  read cannot be read again: that second read rejects. For any other value \<open>alerts\<close> is
  the empty list, and so is its filter \<open>day\<close>.
\<close>

definition fetchOrefAlerts :: "http_result \<Rightarrow> string \<Rightarrow> string list \<times> (fetch_error + alerts_doc)" where
  "fetchOrefAlerts res date =
     ([OREF_URL],
      case res of
        NetworkError \<Rightarrow> Inl (Thrown ''oref'' ''network'')
      | Aborted \<Rightarrow> Inl (Thrown ''oref'' ''timeout'')
      | Response st b \<Rightarrow>
          if \<not> ok st then Inl (Thrown ''oref'' (''http_'' @ digits st))
          else (case b of
            Unparsable msg \<Rightarrow> Inl (JsError msg)
          | Parsed (JArr xs) \<Rightarrow> Inl (JsError body_used)
          | Parsed _ \<Rightarrow>
              let day = ([] :: json list)
              in Inr \<lparr>alert_count = length day,
                      alert_minutes = length day * 10,
                      is_alert_day = (length day > 0)\<rparr>))"

section \<open>The daily document\<close>

record sources_doc =
  src_beecomm :: string
  src_weather :: string
  src_oref :: string
  src_tabit :: string

record meta_doc =
  createdAt :: int
  builtAt :: string
  version :: string
  meta_tenantId :: string
  meta_branchId :: string
  sources :: sources_doc
  sourceVersions :: "(string \<times> string) list"

record daily_doc =
  revenue_total :: rat
  tickets :: rat
  avg_check :: "rat option"
  revenue_dine_in :: "rat option"
  revenue_delivery :: "rat option"
  revenue_takeaway :: "rat option"
  hourly :: "(string \<times> rat) list"
  weather :: "weather_doc option"
  alerts :: "alerts_doc option"
  calendar :: calendar
  staffing :: staffing_doc
  meta :: meta_doc

definition BRANCH_ID :: string where "BRANCH_ID = ''main''"

text \<open>\<open>Math.round\<close>: the nearest integer, a half going up.\<close>

definition Math_round :: "rat \<Rightarrow> int" where
  "Math_round x = \<lfloor>x + 1 / 2\<rfloor>"

text \<open>
  A division of two numbers. With a divisor 0 the result is an infinity or NaN, which is
  no rational: \<open>None\<close>.
\<close>

definition js_div :: "rat \<Rightarrow> rat \<Rightarrow> rat option" where
  "js_div a b = (if b = 0 then None else Some (a / b))"

text \<open>
  \<open>tickets > 0 ? Math.round((revenue_total / tickets) * 100) / 100 : 0\<close>; \<open>None\<close>
  would be a value that is not a finite number.
\<close>

definition avg_check_of :: "rat \<Rightarrow> rat \<Rightarrow> rat option" where
  "avg_check_of revenue tix =
     (if tix > 0
      then map_option (\<lambda>q. of_int (Math_round (q * 100)) / 100) (js_div revenue tix)
      else Some 0)"

text \<open>The answers of the network to the four requests of one build.\<close>

record upstream =
  beecomm_res :: http_result
  tabit_res :: http_result
  weather_res :: http_result
  oref_res :: http_result

text \<open>
  \<open>buildDailyDoc(tenantId, date)\<close>: the URLs requested, and the rejection (\<open>Inl\<close>) or
  the path and the document. \<open>now\<close> and \<open>nowIso\<close> are \<open>Date.now()\<close> and
  \<open>new Date().toISOString()\<close> at assembly. The three optional fetches run under
  \<open>Promise.allSettled\<close>, which never rejects.
\<close>

definition buildDailyDoc ::
  "(json \<Rightarrow> rat option) \<Rightarrow> string option \<Rightarrow> upstream \<Rightarrow> int \<Rightarrow> string \<Rightarrow> string \<Rightarrow> string
     \<Rightarrow> string list \<times> (fetch_error + string \<times> daily_doc)" where
  "buildDailyDoc toNumber key net now nowIso tenant date =
     (case fetchBeecommDaily toNumber (beecomm_res net) date of
        (calls, Inl e) \<Rightarrow> (calls, Inl e)
      | (calls, Inr beecomm) \<Rightarrow>
         (case (fetchTabitHours toNumber key (tabit_res net) date,
                fetchWeather toNumber (weather_res net) date,
                fetchOrefAlerts (oref_res net) date) of
            ((calls_t, tabit), (calls_w, weather'), (calls_o, oref)) \<Rightarrow>
              let staffing' = (case tabit of
                                Inr (Some v) \<Rightarrow> v
                              | Inr None \<Rightarrow> \<lparr>total_hours = None\<rparr>
                              | Inl e \<Rightarrow> \<lparr>total_hours = None\<rparr>);
                  weatherDoc = (case weather' of Inr v \<Rightarrow> Some v | Inl e \<Rightarrow> None);
                  alertsDoc = (case oref of Inr v \<Rightarrow> Some v | Inl e \<Rightarrow> None);
                  calendar' = buildCalendar date;
                  revenue_total' = or_zero (bc_revenue_total beecomm);
                  tickets' = or_zero (bc_tickets beecomm);
                  doc =
                   \<lparr>revenue_total = revenue_total',
                    tickets = tickets',
                    avg_check = avg_check_of revenue_total' tickets',
                    revenue_dine_in = bc_revenue_dine_in beecomm,
                    revenue_delivery = bc_revenue_delivery beecomm,
                    revenue_takeaway = bc_revenue_takeaway beecomm,
                    hourly = bc_hourly beecomm,
                    weather = weatherDoc,
                    alerts = alertsDoc,
                    calendar = calendar',
                    staffing = staffing',
                    meta =
                     \<lparr>createdAt = now,
                      builtAt = nowIso,
                      version = ''1.0.0'',
                      meta_tenantId = tenant,
                      meta_branchId = BRANCH_ID,
                      sources =
                       \<lparr>src_beecomm = ''ok'',
                        src_weather = (case weather' of Inr v \<Rightarrow> ''ok'' | Inl e \<Rightarrow> ''missing''),
                        src_oref = (case oref of Inr v \<Rightarrow> ''ok'' | Inl e \<Rightarrow> ''missing''),
                        src_tabit = (case tabit of Inr (Some v) \<Rightarrow> ''ok'' | _ \<Rightarrow> ''missing'')\<rparr>,
                      sourceVersions =
                        [(''beecomm'', ''v1''), (''oref'', ''v1''), (''weather'', ''open-meteo'')]\<rparr>\<rparr>
              in (calls @ calls_t @ calls_w @ calls_o,
                  Inr (''tenants/'' @ tenant @ ''/analytics/daily/'' @ BRANCH_ID @ ''/'' @ date, doc))))"

text \<open>A provider failure: a network error, a timeout, or a status that is not a success.\<close>

definition failed :: "http_result \<Rightarrow> bool" where
  "failed res = (case res of NetworkError \<Rightarrow> True | Aborted \<Rightarrow> True | Response st b \<Rightarrow> \<not> ok st)"

section \<open>The handlers that drive the builder\<close>

text \<open>
  What a handler does to the world, in order: the verification of the caller's token,
  a rate-limiter count for a key, the tenant access check, an attempt on the lock, a
  build for a tenant and a date (the upstream requests), a write of a document at a
  path, a release of the lock with a token, and the read of the list of tenants.
\<close>

datatype effect =
    VerifyToken
  | RateLimit string
  | AccessCheck string string
  | AcquireLock
  | Build string string
  | StoreSet string
  | ReleaseLock string
  | ReadTenants

text \<open>
  The answer of a handler: the status, the lists \<open>built\<close> and \<open>skipped\<close> of its body
  (empty when the body is an error message), and the effects of the call.
\<close>

record outcome =
  status :: nat
  built :: "string list"
  skipped :: "(string \<times> string) list"
  effects :: "effect list"

definition refuse :: "nat \<Rightarrow> effect list \<Rightarrow> outcome" where
  "refuse st es = \<lparr>status = st, built = [], skipped = [], effects = es\<rparr>"

text \<open>
  \<open>e?.source ? `${e.source}/${e.reason}` : e?.message ?? "unknown"\<close>.
\<close>

definition reason_of :: "fetch_error \<Rightarrow> string" where
  "reason_of e =
     (case e of
        Thrown src reason \<Rightarrow> if src \<noteq> [] then src @ ''/'' @ reason else ''unknown''
      | JsError msg \<Rightarrow> msg)"

text \<open>
  The loop of both handlers over its items, each a tenant and a date: build, write, and
  on any exception record the item as skipped and go on. \<open>build t d\<close> is what
  \<open>buildDailyDoc(t, d)\<close> settles to; \<open>set_err path\<close> is the message of the error with
  which the write at \<open>path\<close> rejects, if it does; \<open>label\<close> picks what the result lists
  name an item by. The result is \<open>built\<close>, \<open>skipped\<close> and the effects.
\<close>

fun build_loop ::
  "(string \<Rightarrow> string \<Rightarrow> fetch_error + string \<times> 'doc) \<Rightarrow> (string \<Rightarrow> string option)
     \<Rightarrow> (string \<times> string \<Rightarrow> string) \<Rightarrow> (string \<times> string) list
     \<Rightarrow> string list \<times> (string \<times> string) list \<times> effect list" where
  "build_loop build set_err label [] = ([], [], [])"
| "build_loop build set_err label ((t, d) # rest) =
     (case build_loop build set_err label rest of
        (bs, ss, es) \<Rightarrow>
          (case build t d of
             Inl e \<Rightarrow> (bs, (label (t, d), reason_of e) # ss, Build t d # es)
           | Inr (path, doc) \<Rightarrow>
              (case set_err path of
                 Some msg \<Rightarrow> (bs, (label (t, d), msg) # ss, Build t d # StoreSet path # es)
               | None \<Rightarrow> (label (t, d) # bs, ss, Build t d # StoreSet path # es))))"

subsection \<open>The scheduled daily builder\<close>

text \<open>The class \<open>\s\<close> on the characters a header can hold.\<close>

definition is_space :: "char \<Rightarrow> bool" where
  "is_space c = (c \<in> set [CHR 0x09, CHR 0x0A, CHR 0x0B, CHR 0x0C, CHR 0x0D, CHR 0x20, CHR 0xA0])"

text \<open>\<open>.replace(/^Bearer\s+/i, "")\<close>.\<close>

definition strip_bearer :: "string \<Rightarrow> string" where
  "strip_bearer s =
     (case s of
        c1 # c2 # c3 # c4 # c5 # c6 # sp # rest \<Rightarrow>
          if c1 \<in> set ''bB'' \<and> c2 \<in> set ''eE'' \<and> c3 \<in> set ''aA'' \<and> c4 \<in> set ''rR''
             \<and> c5 \<in> set ''eE'' \<and> c6 \<in> set ''rR'' \<and> is_space sp
          then dropWhile is_space rest else s
      | _ \<Rightarrow> s)"

text \<open>
  The secret a request supplies: the header \<open>x-cron-secret\<close> when it is not empty,
  otherwise the \<open>authorization\<close> header without its \<open>Bearer\<close> prefix.
\<close>

definition supplied_secret :: "string option \<Rightarrow> string option \<Rightarrow> string" where
  "supplied_secret x_header auth_header =
     (let xHeader = (case x_header of None \<Rightarrow> [] | Some h \<Rightarrow> h);
          authBearer = strip_bearer (case auth_header of None \<Rightarrow> [] | Some h \<Rightarrow> h)
      in if xHeader \<noteq> [] then xHeader else authBearer)"

text \<open>
  \<open>crypto.timingSafeEqual(a, b)\<close> on two buffers: it throws (\<open>None\<close>) when the lengths
  differ and otherwise says whether the bytes are equal. Its running time is not modelled.
\<close>

definition timingSafeEqual :: "string \<Rightarrow> string \<Rightarrow> bool option" where
  "timingSafeEqual a b = (if length a \<noteq> length b then None else Some (a = b))"

definition authorized :: "string \<Rightarrow> string \<Rightarrow> bool" where
  "authorized secret incoming =
     (length secret = length incoming \<and> timingSafeEqual secret incoming = Some True)"

text \<open>
  The handler of the daily builder. \<open>env_secret\<close> is \<open>process.env.CRON_SECRET\<close>,
  \<open>query_date\<close> is \<open>req.query.date\<close>, \<open>yesterday\<close> is \<open>getYesterdayUTC()\<close>, \<open>tenants\<close>
  is the list of keys under \<open>tenants\<close> (\<open>None\<close>: the read throws).
\<close>

definition daily_builder ::
  "string option \<Rightarrow> string option \<Rightarrow> string option \<Rightarrow> string option \<Rightarrow> string
     \<Rightarrow> string list option \<Rightarrow> (string \<Rightarrow> string \<Rightarrow> fetch_error + string \<times> 'doc)
     \<Rightarrow> (string \<Rightarrow> string option) \<Rightarrow> outcome" where
  "daily_builder env_secret x_header auth_header query_date yesterday tenants build set_err =
     (let secret = (case env_secret of None \<Rightarrow> [] | Some s \<Rightarrow> s)
      in if secret = [] then refuse 503 []
         else if \<not> authorized secret (supplied_secret x_header auth_header)
           then refuse 404 []
         else
           let date = (case query_date of
                         None \<Rightarrow> yesterday
                       | Some q \<Rightarrow> if q = [] then yesterday else q)
           in if \<not> date_shape date then refuse 400 []
              else (case tenants of
                      None \<Rightarrow> refuse 503 [ReadTenants]
                    | Some ts \<Rightarrow>
                       (case build_loop build set_err fst (map (\<lambda>t. (t, date)) ts) of
                          (bs, ss, es) \<Rightarrow>
                            \<lparr>status = 200, built = bs, skipped = ss,
                             effects = ReadTenants # es\<rparr>)))"

subsection \<open>The backfill handler\<close>



text \<open>
  The handler from the lock on, for a request that passed validation and the access
  check. \<open>token\<close> is the lock id generated by this request, \<open>now\<close> and \<open>now'\<close> the
  clock readings of the acquire transaction, \<open>acq_throws\<close> and \<open>rel_throws\<close> say that
  the transaction of the acquire or of the release throws. The result is the answer and
  the lock node after the call. The
  release stands in the \<open>finally\<close> of the loop; the loop catches every exception of a
  date itself.
\<close>

definition backfill_locked ::
  "bool \<Rightarrow> bool \<Rightarrow> string \<Rightarrow> int \<Rightarrow> int \<Rightarrow> lock_rec option
     \<Rightarrow> (string \<Rightarrow> string \<Rightarrow> fetch_error + string \<times> 'doc) \<Rightarrow> (string \<Rightarrow> string option)
     \<Rightarrow> string \<Rightarrow> string list
     \<Rightarrow> outcome \<times> lock_rec option" where
  "backfill_locked acq_throws rel_throws token now now' node build set_err tenant dates =
     (case acquireLock acq_throws token now now' node of
        (None, node') \<Rightarrow> (refuse 409 [AcquireLock], node')
      | (Some l, node') \<Rightarrow>
          if l = [] then (refuse 409 [AcquireLock], node')
          else (case build_loop build set_err snd (map (\<lambda>d. (tenant, d)) dates) of
                  (bs, ss, es) \<Rightarrow>
                    (\<lparr>status = 200, built = bs, skipped = ss,
                      effects = AcquireLock # es @ [ReleaseLock l]\<rparr>,
                     releaseLock rel_throws l node')))"



section \<open>Verified properties\<close>

subsection \<open>Transactions whose update function writes on an empty node\<close>

text \<open>
  When the update function does not abort on \<open>null\<close>, the first run is sent to the server
  and the outcome is that of the update function on the value the node holds.
\<close>

lemma transaction_fresh:
  assumes "update None \<noteq> TxAbort"
  shows "transaction throws update current =
           (if throws then (TxThrew, current)
            else case update current of
                   TxAbort \<Rightarrow> (TxCommitted False, current)
                 | TxWrite v \<Rightarrow> (TxCommitted True, v))"
  using assms by (cases current; cases "update None") (auto simp: transaction_def split: tx_update.splits)

lemma bootstrap_transaction:
  "transaction throws (bootstrap_update uid) current =
     (if throws then (TxThrew, current)
      else case bootstrap_update uid current of
             TxAbort \<Rightarrow> (TxCommitted False, current)
           | TxWrite v \<Rightarrow> (TxCommitted True, v))"
  by (rule transaction_fresh) (simp add: bootstrap_update_def or_empty_def)

lemma role_transaction:
  "transaction throws (role_update targetUid role) current =
     (if throws then (TxThrew, current)
      else case role_update targetUid role current of
             TxAbort \<Rightarrow> (TxCommitted False, current)
           | TxWrite v \<Rightarrow> (TxCommitted True, v))"
  by (rule transaction_fresh)
     (simp add: role_update_def or_empty_def owners_of_def split: option.splits)

lemma acquire_transaction:
  "transaction throws (acquire_update token now now') current =
     (if throws then (TxThrew, current)
      else case acquire_update token now now' current of
             TxAbort \<Rightarrow> (TxCommitted False, current)
           | TxWrite v \<Rightarrow> (TxCommitted True, v))"
  by (rule transaction_fresh) (simp add: acquire_update_def)

text \<open>
  The update function of \<open>releaseLock\<close> aborts on \<open>null\<close>: its transaction never reaches
  the server.
\<close>

lemma release_transaction:
  "transaction throws (release_update token) current
     = (if throws then TxThrew else TxCommitted False, current)"
  by (simp add: transaction_def release_update_def)

subsection \<open>Objects and the owner list\<close>

lemma sel_Nil: "sel P [] = {}"
  by (simp add: sel_def)

lemma sel_Cons: "sel P ((k, v) # rest) = (if P v then insert k (sel P rest) else sel P rest)"
  by (auto simp: sel_def)

lemma sel_keys: "k \<notin> fst ` set o' \<Longrightarrow> k \<notin> sel P o'"
  by (force simp: sel_def)

lemma keys_obj_set: "fst ` set (obj_set o' k v) = insert k (fst ` set o')"
  by (induction o' k v rule: obj_set.induct) auto

lemma keys_obj_delete: "fst ` set (obj_delete o' k) = fst ` set o' - {k}"
  by (induction o' k rule: obj_delete.induct) auto

lemma wf_obj_set: "wf_obj o' \<Longrightarrow> wf_obj (obj_set o' k v)"
  unfolding wf_obj_def
  by (induction o' k v rule: obj_set.induct) (auto simp: keys_obj_set)

lemma wf_obj_delete: "wf_obj o' \<Longrightarrow> wf_obj (obj_delete o' k)"
  unfolding wf_obj_def
  by (induction o' k rule: obj_delete.induct) (auto simp: keys_obj_delete)

lemma sel_obj_set_in: "P v \<Longrightarrow> sel P (obj_set o' k v) = insert k (sel P o')"
  by (induction o' k v rule: obj_set.induct) (auto simp: sel_Nil sel_Cons)

lemma sel_obj_set_out:
  "distinct (map fst o') \<Longrightarrow> \<not> P v \<Longrightarrow> sel P (obj_set o' k v) = sel P o' - {k}"
proof (induction o' k v rule: obj_set.induct)
  case (1 k v)
  then show ?case by (simp add: sel_Nil sel_Cons)
next
  case (2 k' v' rest k v)
  show ?case
  proof (cases "k' = k")
    case True
    with 2 have "k \<notin> sel P rest" by (simp add: sel_keys)
    with True 2 show ?thesis by (auto simp: sel_Cons)
  next
    case False
    with 2 show ?thesis by (auto simp: sel_Cons)
  qed
qed

lemma sel_obj_delete: "sel P (obj_delete o' k) = sel P o' - {k}"
  by (induction o' k rule: obj_delete.induct) (auto simp: sel_Nil sel_Cons)

lemma set_owners_of: "set (owners_of o') = sel (\<lambda>r. r = JStr ''owner'') o'"
  unfolding owners_of_def sel_def by force

lemma distinct_owners: "wf_obj o' \<Longrightarrow> distinct (owners_of o')"
  unfolding owners_of_def wf_obj_def by (simp add: distinct_map_filter)

lemma singleton_list: "distinct xs \<Longrightarrow> set xs = {t} \<Longrightarrow> xs = [t]"
proof (cases xs)
  case Nil
  assume "set xs = {t}" with Nil show ?thesis by simp
next
  case (Cons a ys)
  assume d: "distinct xs" and s: "set xs = {t}"
  from s Cons have a: "a = t" by auto
  from d Cons a have "t \<notin> set ys" by simp
  moreover from s Cons have "set ys \<subseteq> {t}" by auto
  ultimately have "ys = []" by (cases ys) auto
  with Cons a show ?thesis by simp
qed

lemma last_owner_test:
  assumes "wf_obj o'"
  shows "(length (owners_of o') = 1 \<and> owners_of o' ! 0 = t) \<longleftrightarrow> set (owners_of o') = {t}"
proof
  assume "length (owners_of o') = 1 \<and> owners_of o' ! 0 = t"
  then show "set (owners_of o') = {t}"
    by (cases "owners_of o'") auto
next
  assume s: "set (owners_of o') = {t}"
  have "owners_of o' = [t]"
    using distinct_owners[OF assms] s by (rule singleton_list)
  then show "length (owners_of o') = 1 \<and> owners_of o' ! 0 = t" by simp
qed

subsection \<open>What the two role transactions write\<close>

lemma role_update_result:
  assumes "wf_obj (or_empty node)"
  shows "role_update target role node =
           (if set (owners_of (or_empty node)) = {target} then TxAbort
            else TxWrite (Some (case role of None \<Rightarrow> obj_delete (or_empty node) target
                                 | Some r \<Rightarrow> obj_set (or_empty node) target (JStr r))))"
  using last_owner_test[OF assms, of target]
  by (auto simp: role_update_def Let_def split: option.splits)

lemma admin_roles_node:
  assumes "wf_obj (or_empty node)"
  shows "snd (admin_roles fails access tn target role node) = node
       \<or> (role \<noteq> Some ''owner'' \<and> set (owners_of (or_empty node)) \<noteq> {target}
            \<and> snd (admin_roles fails access tn target role node) =
                Some (case role of None \<Rightarrow> obj_delete (or_empty node) target
                      | Some r \<Rightarrow> obj_set (or_empty node) target (JStr r)))
       \<or> (role = Some ''owner''
            \<and> snd (admin_roles fails access tn target role node) =
                Some (obj_set (or_empty node) target (JStr ''owner'')))"
  unfolding admin_roles_def role_transaction set_child_def role_update_result[OF assms]
  by (simp split: sum.splits prod.splits)

lemma bootstrap_update_result:
  "bootstrap_update uid node =
     (if set (owners_of (or_empty node)) \<noteq> {} then TxAbort
      else TxWrite (Some (obj_set (or_empty node) uid (JStr ''owner''))))"
proof -
  have "(filter (\<lambda>r. r = JStr ''owner'') (map snd xs) = []) = (owners_of xs = [])" for xs
    unfolding owners_of_def by (induction xs) auto
  then show ?thesis
    by (simp add: bootstrap_update_def Let_def)
qed

lemma bootstrap_owner_node:
  "snd (bootstrap_owner throws caller tn uid node) = node
   \<or> (set (owners_of (or_empty node)) = {}
       \<and> snd (bootstrap_owner throws caller tn uid node) =
            Some (obj_set (or_empty node) uid (JStr ''owner'')))"
  unfolding bootstrap_owner_def bootstrap_transaction bootstrap_update_result
  by simp

lemma or_empty_simps: "or_empty None = []" "or_empty (Some r) = r"
  by (simp_all add: or_empty_def)

lemma remove_not_last: "S \<noteq> {} \<Longrightarrow> S \<noteq> {t} \<Longrightarrow> S - {t} \<noteq> {}"
  by blast

lemma run_op_wf:
  assumes "wf_obj (or_empty node)"
  shows "wf_obj (or_empty (snd (run_op op' node)))"
proof (cases op')
  case (Bootstrap throws caller tn uid)
  then show ?thesis
    using bootstrap_owner_node[of throws caller tn uid node] assms
    by (auto simp: or_empty_simps wf_obj_set)
next
  case (UpdateRole fails access tn target role)
  then show ?thesis
    using admin_roles_node[OF assms, of fails access tn target role] assms
    by (auto simp: or_empty_simps wf_obj_set wf_obj_delete split: option.splits)
qed

lemma run_op_owners:
  assumes "wf_obj (or_empty node)" and "set (owners_of (or_empty node)) \<noteq> {}"
  shows "set (owners_of (or_empty (snd (run_op op' node)))) \<noteq> {}"
proof (cases op')
  case (Bootstrap throws caller tn uid)
  then show ?thesis
    using bootstrap_owner_node[of throws caller tn uid node] assms by auto
next
  case (UpdateRole fails access tn target role)
  let ?S = "set (owners_of (or_empty node))"
  let ?n = "snd (admin_roles fails access tn target role node)"
  from admin_roles_node[OF assms(1), of fails access tn target role]
  consider "?n = node"
    | r where "role = Some r" "r \<noteq> ''owner''" "?S \<noteq> {target}"
        "?n = Some (obj_set (or_empty node) target (JStr r))"
    | "role = None" "?S \<noteq> {target}" "?n = Some (obj_delete (or_empty node) target)"
    | "?n = Some (obj_set (or_empty node) target (JStr ''owner''))"
    by (cases role) auto
  then have "set (owners_of (or_empty ?n)) \<noteq> {}"
  proof cases
    case 1
    then show ?thesis using assms by simp
  next
    case 2
    have "set (owners_of (obj_set (or_empty node) target (JStr r))) = ?S - {target}"
      unfolding set_owners_of using assms(1) 2(2)
      by (intro sel_obj_set_out) (simp_all add: wf_obj_def)
    with 2(3,4) remove_not_last[OF assms(2), of target] show ?thesis
      by (simp add: or_empty_simps)
  next
    case 3
    have "set (owners_of (obj_delete (or_empty node) target)) = ?S - {target}"
      unfolding set_owners_of by (rule sel_obj_delete)
    with 3(2,3) remove_not_last[OF assms(2), of target] show ?thesis
      by (simp add: or_empty_simps)
  next
    case 4
    have "set (owners_of (obj_set (or_empty node) target (JStr ''owner''))) = insert target ?S"
      unfolding set_owners_of by (intro sel_obj_set_in) simp
    with 4 show ?thesis by (simp add: or_empty_simps)
  qed
  with UpdateRole show ?thesis by simp
qed

lemma step_wf: "wf_db db \<Longrightarrow> wf_db (snd (step db op'))"
  unfolding wf_db_def step_def
  by (auto simp: split_beta intro: run_op_wf)

lemma step_owners:
  assumes "wf_db db" and "owner_set db t \<noteq> {}"
  shows "owner_set (snd (step db op')) t \<noteq> {}"
proof (cases "t = op_tenant op'")
  case True
  have "wf_obj (or_empty (db t))" using assms(1) by (simp add: wf_db_def)
  from run_op_owners[OF this, of op'] assms(2) True show ?thesis
    by (simp add: owner_set_def step_def split_beta)
next
  case False
  then show ?thesis using assms(2)
    by (simp add: owner_set_def step_def split_beta)
qed

lemma run_ops_owners:
  "wf_db db \<Longrightarrow> owner_set db t \<noteq> {} \<Longrightarrow> owner_set (snd (run_ops db ops)) t \<noteq> {}"
proof (induction ops arbitrary: db)
  case Nil
  then show ?case by simp
next
  case (Cons op' ops)
  have "wf_db (snd (step db op'))" using Cons.prems(1) by (rule step_wf)
  moreover have "owner_set (snd (step db op')) t \<noteq> {}"
    using Cons.prems by (rule step_owners)
  ultimately have "owner_set (snd (run_ops (snd (step db op')) ops)) t \<noteq> {}"
    by (rule Cons.IH)
  then show ?case by (simp add: split_beta)
qed

subsection \<open>The owner set is never emptied\<close>

lemma owner_set_step_grow:
  assumes "snd (run_op op' (db (op_tenant op'))) = db (op_tenant op')
           \<or> snd (run_op op' (db (op_tenant op'))) =
               Some (obj_set (or_empty (db (op_tenant op'))) u (JStr ''owner''))"
  shows "owner_set db t \<subseteq> owner_set (snd (step db op')) t
         \<and> owner_set (snd (step db op')) t \<subseteq> insert u (owner_set db t)"
proof (cases "t = op_tenant op'")
  case False
  then have "owner_set (snd (step db op')) t = owner_set db t"
    by (simp add: owner_set_def step_def split_beta)
  then show ?thesis by blast
next
  case True
  have after: "owner_set (snd (step db op')) t
                 = set (owners_of (or_empty (snd (run_op op' (db t)))))"
    using True by (simp add: owner_set_def step_def split_beta)
  have grow: "set (owners_of (obj_set (or_empty (db t)) u (JStr ''owner'')))
          = insert u (owner_set db t)"
    unfolding set_owners_of owner_set_def by (intro sel_obj_set_in) simp
  from assms True
  consider "snd (run_op op' (db t)) = db t"
    | "snd (run_op op' (db t)) = Some (obj_set (or_empty (db t)) u (JStr ''owner''))"
    by blast
  then show ?thesis
  proof cases
    case 1
    then have "owner_set (snd (step db op')) t = owner_set db t"
      unfolding after by (simp add: owner_set_def)
    then show ?thesis by blast
  next
    case 2
    then have "owner_set (snd (step db op')) t = insert u (owner_set db t)"
      unfolding after by (simp only: or_empty_simps grow)
    then show ?thesis by blast
  qed
qed


text \<open>
  Claim C1. For every tenant \<open>t\<close> and every sequence \<open>ops\<close> of Bootstrap and UpdateRole
  operations on a store whose role objects have distinct keys: if the owner set of \<open>t\<close>
  is non-empty before the sequence it is non-empty after it. An UpdateRole with a role
  other than \<open>owner\<close> that finds the owner set equal to \<open>{target}\<close> aborts its
  transaction and leaves the roles of every tenant as they were, with status 409 when the
  request passed validation and the access check and the store did not throw. An
  UpdateRole to \<open>owner\<close> and a Bootstrap can only add their uid to the owner set.
\<close>

theorem owner_set_never_emptied:
  assumes "wf_db db"
  shows "(owner_set db t \<noteq> {} \<longrightarrow> owner_set (snd (run_ops db ops)) t \<noteq> {})
   \<and> (role \<noteq> Some ''owner'' \<and> owner_set db tn = {target} \<longrightarrow>
        role_update target role (db tn) = TxAbort
        \<and> snd (step db (UpdateRole fails access tn target role)) = db
        \<and> (\<not> role_body_invalid tn target role \<and> (\<exists>r. access = Inr r) \<and> \<not> fails \<longrightarrow>
             fst (step db (UpdateRole fails access tn target role)) = 409))
   \<and> (owner_set db t \<subseteq> owner_set (snd (step db (UpdateRole fails access tn target (Some ''owner'')))) t
        \<and> owner_set (snd (step db (UpdateRole fails access tn target (Some ''owner'')))) t
             \<subseteq> insert target (owner_set db t))
   \<and> (owner_set db t \<subseteq> owner_set (snd (step db (Bootstrap throws caller tn uid))) t
        \<and> owner_set (snd (step db (Bootstrap throws caller tn uid))) t
             \<subseteq> insert uid (owner_set db t))"
proof (intro conjI impI)
  assume "owner_set db t \<noteq> {}"
  with assms show "owner_set (snd (run_ops db ops)) t \<noteq> {}" by (rule run_ops_owners)
next
  have wf: "wf_obj (or_empty (db tn))" using assms by (simp add: wf_db_def)
  assume a: "role \<noteq> Some ''owner'' \<and> owner_set db tn = {target}"
  then show ab: "role_update target role (db tn) = TxAbort"
    by (simp add: role_update_result[OF wf] owner_set_def)
  from a ab have "snd (admin_roles fails access tn target role (db tn)) = db tn"
    by (simp add: admin_roles_def role_transaction split: sum.splits)
  then show "snd (step db (UpdateRole fails access tn target role)) = db"
    by (simp add: step_def split_beta)
  assume "\<not> role_body_invalid tn target role \<and> (\<exists>r. access = Inr r) \<and> \<not> fails"
  then obtain r where v: "\<not> role_body_invalid tn target role" "access = Inr r" "\<not> fails"
    by blast
  from a have ro: "role \<noteq> Some ''owner''" by simp
  have "admin_roles fails access tn target role (db tn) = (409, db tn)"
    unfolding admin_roles_def role_transaction ab using v ro by simp
  then show "fst (step db (UpdateRole fails access tn target role)) = 409"
    by (simp add: step_def)
next
  have wf: "wf_obj (or_empty (db tn))" using assms by (simp add: wf_db_def)
  have "owner_set db t \<subseteq> owner_set (snd (step db (UpdateRole fails access tn target (Some ''owner'')))) t
        \<and> owner_set (snd (step db (UpdateRole fails access tn target (Some ''owner'')))) t
             \<subseteq> insert target (owner_set db t)"
    using admin_roles_node[OF wf, of fails access tn target "Some ''owner''"]
    by (intro owner_set_step_grow) (simp del: obj_set.simps)
  then show "owner_set db t \<subseteq> owner_set (snd (step db (UpdateRole fails access tn target (Some ''owner'')))) t"
    and "owner_set (snd (step db (UpdateRole fails access tn target (Some ''owner'')))) t
             \<subseteq> insert target (owner_set db t)"
    by simp_all
next
  have "owner_set db t \<subseteq> owner_set (snd (step db (Bootstrap throws caller tn uid))) t
        \<and> owner_set (snd (step db (Bootstrap throws caller tn uid))) t
             \<subseteq> insert uid (owner_set db t)"
    using bootstrap_owner_node[of throws caller tn uid "db tn"]
    by (intro owner_set_step_grow) (auto simp del: obj_set.simps)
  then show "owner_set db t \<subseteq> owner_set (snd (step db (Bootstrap throws caller tn uid))) t"
    and "owner_set (snd (step db (Bootstrap throws caller tn uid))) t
             \<subseteq> insert uid (owner_set db t)"
    by simp_all
qed

theorem owner_set_never_emptied_witness:
  "wf_db ((\<lambda>t. None)(''t1'' := Some [(''alice'', JStr ''owner'')]))
   \<and> owner_set ((\<lambda>t. None)(''t1'' := Some [(''alice'', JStr ''owner'')])) ''t1'' = {''alice''}
   \<and> owner_set (snd (run_ops ((\<lambda>t. None)(''t1'' := Some [(''alice'', JStr ''owner'')]))
        [UpdateRole False (Inr ''owner'') ''t1'' ''alice'' None,
         UpdateRole False (Inr ''owner'') ''t1'' ''bob'' (Some ''owner''),
         UpdateRole False (Inr ''owner'') ''t1'' ''alice'' (Some ''viewer''),
         UpdateRole False (Inr ''owner'') ''t1'' ''bob'' None])) ''t1'' \<noteq> {}
   \<and> step ((\<lambda>t. None)(''t1'' := Some [(''alice'', JStr ''owner'')]))
        (UpdateRole False (Inr ''owner'') ''t1'' ''alice'' None)
       = (409, (\<lambda>t. None)(''t1'' := Some [(''alice'', JStr ''owner'')]))"
proof -
  let ?db = "(\<lambda>t. None)(''t1'' := Some [(''alice'', JStr ''owner'')])"
  let ?ops = "[UpdateRole False (Inr ''owner'') ''t1'' ''alice'' None,
         UpdateRole False (Inr ''owner'') ''t1'' ''bob'' (Some ''owner''),
         UpdateRole False (Inr ''owner'') ''t1'' ''alice'' (Some ''viewer''),
         UpdateRole False (Inr ''owner'') ''t1'' ''bob'' None]"
  have wf: "wf_db ?db"
    by (simp add: wf_db_def wf_obj_def or_empty_simps)
  have os: "owner_set ?db ''t1'' = {''alice''}"
    by (simp add: owner_set_def owners_of_def or_empty_simps)
  have valid: "\<not> role_body_invalid ''t1'' ''alice'' None \<and> (\<exists>r. Inr ''owner'' = (Inr r :: http_error + string)) \<and> \<not> False"
    by (simp add: role_body_invalid_def RTDB_FORBIDDEN_def)
  note inst = owner_set_never_emptied[OF wf, of "''t1''" "?ops" None "''t1''" "''alice''" False
      "Inr ''owner''" False "''x''" "''x''"]
  have ne: "owner_set ?db ''t1'' \<noteq> {}" unfolding os by simp
  have 1: "owner_set (snd (run_ops ?db ?ops)) ''t1'' \<noteq> {}"
    by (rule mp[OF inst[THEN conjunct1] ne])
  have pre: "None \<noteq> Some ''owner'' \<and> owner_set ?db ''t1'' = {''alice''}"
    unfolding os by simp
  note abort = mp[OF inst[THEN conjunct2, THEN conjunct1] pre]
  have 4: "step ?db (UpdateRole False (Inr ''owner'') ''t1'' ''alice'' None) = (409, ?db)"
    using abort[THEN conjunct2, THEN conjunct1]
      mp[OF abort[THEN conjunct2, THEN conjunct2] valid]
    by (simp only: prod_eq_iff fst_conv snd_conv simp_thms)
  show ?thesis by (intro conjI wf os 1 4)
qed

subsection \<open>Bootstrap conflicts\<close>

lemma has_owner_iff: "(\<exists>k. (k, JStr ''owner'') \<in> set o') \<longleftrightarrow> set (owners_of o') \<noteq> {}"
  unfolding set_owners_of sel_def by auto

lemma bootstrap_owner_status:
  assumes "\<not> bootstrap_body_invalid tn uid" and "\<not> throws"
  shows "bootstrap_owner throws uid tn uid node =
           (if set (owners_of (or_empty node)) \<noteq> {} then (409, node)
            else (200, Some (obj_set (or_empty node) uid (JStr ''owner''))))"
  using assms
  unfolding bootstrap_owner_def bootstrap_transaction bootstrap_update_result
  by simp

lemma bootstrap_after_owner:
  assumes "set (owners_of (or_empty (db tn))) \<noteq> {}"
    and "\<forall>u \<in> set uids. \<not> bootstrap_body_invalid tn u"
  shows "run_ops db (map (\<lambda>u. Bootstrap False u tn u) uids) = (replicate (length uids) 409, db)"
  using assms
proof (induction uids)
  case Nil
  then show ?case by simp
next
  case (Cons u uids)
  have "step db (Bootstrap False u tn u) = (409, db)"
    using Cons.prems by (simp add: step_def bootstrap_owner_status)
  moreover have "run_ops db (map (\<lambda>u. Bootstrap False u tn u) uids) = (replicate (length uids) 409, db)"
    using Cons by simp
  ultimately show ?case by simp
qed

lemma bootstrap_race:
  assumes "db tn = None" and "uids \<noteq> []"
    and "\<forall>u \<in> set uids. \<not> bootstrap_body_invalid tn u"
  shows "fst (run_ops db (map (\<lambda>u. Bootstrap False u tn u) uids))
           = 200 # replicate (length uids - 1) 409"
proof (cases uids)
  case Nil
  with assms(2) show ?thesis by simp
next
  case (Cons u rest)
  let ?db' = "db(tn := Some [(u, JStr ''owner'')])"
  have first: "step db (Bootstrap False u tn u) = (200, ?db')"
    using assms(1,3) Cons
    by (simp add: step_def bootstrap_owner_status or_empty_simps owners_of_def)
  have "set (owners_of (or_empty (?db' tn))) \<noteq> {}"
    by (simp add: or_empty_simps owners_of_def)
  moreover have "\<forall>u \<in> set rest. \<not> bootstrap_body_invalid tn u"
    using assms(3) Cons by simp
  ultimately have "run_ops ?db' (map (\<lambda>u. Bootstrap False u tn u) rest)
                     = (replicate (length rest) 409, ?db')"
    by (rule bootstrap_after_owner)
  with first Cons show ?thesis by simp
qed

text \<open>
  Claim C3. The update function of the bootstrap transaction aborts exactly when the
  roles object it reads has an entry equal to \<open>owner\<close>. For a valid self-bootstrap on a
  store that does not throw, the answer is 409 exactly in that case, and otherwise the
  answer is 200 and the node holds the object read extended with \<open>uid\<close> mapped to
  \<open>owner\<close>. Hence bootstrap calls racing for a fresh tenant, in whatever order the store
  serialises them, give one 200 and 409 for all the others.
\<close>

theorem bootstrap_conflict_iff_owner_exists:
  "(bootstrap_update uid node = TxAbort \<longleftrightarrow> (\<exists>k. (k, JStr ''owner'') \<in> set (or_empty node)))
   \<and> (\<not> bootstrap_body_invalid tn uid \<and> caller = uid \<and> \<not> throws \<longrightarrow>
        (fst (bootstrap_owner throws caller tn uid node) = 409
           \<longleftrightarrow> (\<exists>k. (k, JStr ''owner'') \<in> set (or_empty node)))
        \<and> ((\<nexists>k. (k, JStr ''owner'') \<in> set (or_empty node)) \<longrightarrow>
             bootstrap_owner throws caller tn uid node
               = (200, Some (obj_set (or_empty node) uid (JStr ''owner'')))))
   \<and> (db tn = None \<and> uids \<noteq> [] \<and> (\<forall>u \<in> set uids. \<not> bootstrap_body_invalid tn u) \<longrightarrow>
        fst (run_ops db (map (\<lambda>u. Bootstrap False u tn u) uids))
          = 200 # replicate (length uids - 1) 409)"
proof (intro conjI impI)
  show "bootstrap_update uid node = TxAbort \<longleftrightarrow> (\<exists>k. (k, JStr ''owner'') \<in> set (or_empty node))"
    by (simp add: bootstrap_update_result has_owner_iff)
next
  assume a: "\<not> bootstrap_body_invalid tn uid \<and> caller = uid \<and> \<not> throws"
  then show "fst (bootstrap_owner throws caller tn uid node) = 409
           \<longleftrightarrow> (\<exists>k. (k, JStr ''owner'') \<in> set (or_empty node))"
    by (simp add: bootstrap_owner_status has_owner_iff)
  assume "\<nexists>k. (k, JStr ''owner'') \<in> set (or_empty node)"
  then have "set (owners_of (or_empty node)) = {}" by (simp add: has_owner_iff)
  with a show "bootstrap_owner throws caller tn uid node
               = (200, Some (obj_set (or_empty node) uid (JStr ''owner'')))"
    by (simp add: bootstrap_owner_status)
next
  assume "db tn = None \<and> uids \<noteq> [] \<and> (\<forall>u \<in> set uids. \<not> bootstrap_body_invalid tn u)"
  then show "fst (run_ops db (map (\<lambda>u. Bootstrap False u tn u) uids))
          = 200 # replicate (length uids - 1) 409"
    by (simp add: bootstrap_race)
qed

lemma bootstrap_body_ok_example:
  "\<not> bootstrap_body_invalid ''t1'' ''alice''" "\<not> bootstrap_body_invalid ''t1'' ''bob''"
  "\<not> bootstrap_body_invalid ''t1'' ''carol''"
  by (simp_all add: bootstrap_body_invalid_def RTDB_FORBIDDEN_def)

theorem bootstrap_conflict_iff_owner_exists_witness:
  "bootstrap_owner False ''bob'' ''t1'' ''bob'' (Some [(''alice'', JStr ''owner'')])
     = (409, Some [(''alice'', JStr ''owner'')])
   \<and> bootstrap_owner False ''bob'' ''t1'' ''bob'' (Some [(''alice'', JStr ''viewer'')])
     = (200, Some [(''alice'', JStr ''viewer''), (''bob'', JStr ''owner'')])
   \<and> fst (run_ops (\<lambda>t. None)
        [Bootstrap False ''alice'' ''t1'' ''alice'', Bootstrap False ''bob'' ''t1'' ''bob'',
         Bootstrap False ''carol'' ''t1'' ''carol'']) = [200, 409, 409]"
proof -
  have own: "\<exists>k. (k, JStr ''owner'') \<in> set (or_empty (Some [(''alice'', JStr ''owner'')]))"
    by (simp add: or_empty_simps)
  have nown: "\<nexists>k. (k, JStr ''owner'') \<in> set (or_empty (Some [(''alice'', JStr ''viewer'')]))"
    by (simp add: or_empty_simps)
  have pre: "\<not> bootstrap_body_invalid ''t1'' ''bob'' \<and> ''bob'' = ''bob'' \<and> \<not> False"
    by (simp add: bootstrap_body_ok_example)
  have uids: "(\<lambda>t. None) ''t1'' = None \<and> [''alice'', ''bob'', ''carol''] \<noteq> []
      \<and> (\<forall>u \<in> set [''alice'', ''bob'', ''carol'']. \<not> bootstrap_body_invalid ''t1'' u)"
    by (simp add: bootstrap_body_ok_example)
  have a: "fst (bootstrap_owner False ''bob'' ''t1'' ''bob'' (Some [(''alice'', JStr ''owner'')])) = 409"
    using bootstrap_conflict_iff_owner_exists
      [of "''bob''" "Some [(''alice'', JStr ''owner'')]" "''t1''" "''bob''" False "\<lambda>t. None" "[]"]
      own pre by blast
  have a2: "snd (bootstrap_owner False ''bob'' ''t1'' ''bob'' (Some [(''alice'', JStr ''owner'')]))
      = Some [(''alice'', JStr ''owner'')]"
    using bootstrap_owner_node[of False "''bob''" "''t1''" "''bob''" "Some [(''alice'', JStr ''owner'')]"]
    by (simp add: or_empty_simps owners_of_def)
  have b: "bootstrap_owner False ''bob'' ''t1'' ''bob'' (Some [(''alice'', JStr ''viewer'')])
      = (200, Some (obj_set (or_empty (Some [(''alice'', JStr ''viewer'')])) ''bob'' (JStr ''owner'')))"
    using bootstrap_conflict_iff_owner_exists
      [of "''bob''" "Some [(''alice'', JStr ''viewer'')]" "''t1''" "''bob''" False "\<lambda>t. None" "[]"]
      nown pre by blast
  have c: "fst (run_ops (\<lambda>t. None) (map (\<lambda>u. Bootstrap False u ''t1'' u) [''alice'', ''bob'', ''carol'']))
      = 200 # replicate (length [''alice'', ''bob'', ''carol''] - 1) 409"
    using bootstrap_conflict_iff_owner_exists
      [of "''bob''" "None" "''t1''" "''bob''" False "\<lambda>t. None" "[''alice'', ''bob'', ''carol'']"]
      uids by blast
  have c': "replicate (length [''alice'', ''bob'', ''carol''] - 1) (409::nat) = [409, 409]"
    by (simp add: numeral_2_eq_2)
  show ?thesis
    using a a2 b c unfolding c' by (simp add: or_empty_simps prod_eq_iff)
qed

subsection \<open>The access check fails closed\<close>

lemma hasRole_rank:
  assumes "r \<in> set VALID_ROLES" and "m \<in> set VALID_ROLES"
  shows "hasRole r m \<longleftrightarrow> (\<exists>i j. ROLE_RANK r = Some i \<and> ROLE_RANK m = Some j \<and> j \<le> i)"
  using assms by (auto simp: VALID_ROLES_def hasRole_def ROLE_RANK_def)

lemma access_granted_iff:
  assumes "access_input_error uid tenantId minRole = None"
  shows "requireTenantAccess db uid tenantId minRole = Inr role \<longleftrightarrow>
           db (member_path tenantId uid) = Value (JBool True)
           \<and> db (role_path tenantId uid) = Value (JStr role)
           \<and> role \<in> set VALID_ROLES \<and> hasRole role minRole"
  using assms unfolding requireTenantAccess_def
  by (auto split: read.splits json.splits)

text \<open>
  Claim C2. For a call of \<open>requireTenantAccess\<close> whose inputs pass validation: when the
  membership read is rejected or loses against its timer the call throws status 503 and
  returns no role; when the read yields a value other than the boolean \<open>true\<close> the call
  throws status 403 with \<open>not a tenant member\<close>; and the call returns a role exactly
  when the membership value is \<open>true\<close>, the role read yields that role as a string, the
  role is one of the four known roles, and its rank is at least the rank of \<open>minRole\<close>.
\<close>

theorem requireTenantAccess_fail_closed:
  assumes "access_input_error uid tenantId minRole = None"
  shows "(db (member_path tenantId uid) = ReadFailed \<or> db (member_path tenantId uid) = TimedOut
            \<longrightarrow> requireTenantAccess db uid tenantId minRole
                  = Inl (503, ''authorization check unavailable''))
       \<and> (\<forall>v. db (member_path tenantId uid) = Value v \<and> v \<noteq> JBool True
            \<longrightarrow> requireTenantAccess db uid tenantId minRole
                  = Inl (403, ''not a tenant member''))
       \<and> (\<forall>role. requireTenantAccess db uid tenantId minRole = Inr role \<longleftrightarrow>
            db (member_path tenantId uid) = Value (JBool True)
            \<and> db (role_path tenantId uid) = Value (JStr role)
            \<and> role \<in> set VALID_ROLES
            \<and> (\<exists>i j. ROLE_RANK role = Some i \<and> ROLE_RANK minRole = Some j \<and> j \<le> i))"
proof (intro conjI allI impI)
  assume "db (member_path tenantId uid) = ReadFailed \<or> db (member_path tenantId uid) = TimedOut"
  then show "requireTenantAccess db uid tenantId minRole
               = Inl (503, ''authorization check unavailable'')"
    using assms by (auto simp: requireTenantAccess_def)
next
  fix v
  assume "db (member_path tenantId uid) = Value v \<and> v \<noteq> JBool True"
  then show "requireTenantAccess db uid tenantId minRole = Inl (403, ''not a tenant member'')"
    using assms by (simp add: requireTenantAccess_def)
next
  fix role
  have m: "minRole \<in> set VALID_ROLES"
    using assms by (simp add: access_input_error_def split: if_splits)
  show "requireTenantAccess db uid tenantId minRole = Inr role \<longleftrightarrow>
            db (member_path tenantId uid) = Value (JBool True)
            \<and> db (role_path tenantId uid) = Value (JStr role)
            \<and> role \<in> set VALID_ROLES
            \<and> (\<exists>i j. ROLE_RANK role = Some i \<and> ROLE_RANK minRole = Some j \<and> j \<le> i)"
    unfolding access_granted_iff[OF assms] using hasRole_rank[OF _ m] by blast
qed

theorem requireTenantAccess_fail_closed_witness:
  "access_input_error ''u1'' ''t1'' ''manager'' = None
   \<and> requireTenantAccess (\<lambda>p. TimedOut) ''u1'' ''t1'' ''manager''
       = Inl (503, ''authorization check unavailable'')
   \<and> requireTenantAccess (\<lambda>p. Value (JStr ''true'')) ''u1'' ''t1'' ''manager''
       = Inl (403, ''not a tenant member'')
   \<and> requireTenantAccess
        (\<lambda>p. if p = ''tenants/t1/members/u1'' then Value (JBool True) else Value (JStr ''owner''))
        ''u1'' ''t1'' ''manager'' = Inr ''owner''"
proof -
  have ok: "access_input_error ''u1'' ''t1'' ''manager'' = None"
    by (simp add: access_input_error_def VALID_ROLES_def RTDB_FORBIDDEN_def)
  let ?db = "\<lambda>p. if p = ''tenants/t1/members/u1'' then Value (JBool True) else Value (JStr ''owner'')"
  have a: "requireTenantAccess (\<lambda>p. TimedOut) ''u1'' ''t1'' ''manager''
       = Inl (503, ''authorization check unavailable'')"
    using requireTenantAccess_fail_closed[OF ok, of "\<lambda>p. TimedOut", THEN conjunct1] by simp
  have b: "requireTenantAccess (\<lambda>p. Value (JStr ''true'')) ''u1'' ''t1'' ''manager''
       = Inl (403, ''not a tenant member'')"
    using requireTenantAccess_fail_closed[OF ok, of "\<lambda>p. Value (JStr ''true'')",
        THEN conjunct2, THEN conjunct1] by simp
  have "?db (member_path ''t1'' ''u1'') = Value (JBool True)
        \<and> ?db (role_path ''t1'' ''u1'') = Value (JStr ''owner'')
        \<and> ''owner'' \<in> set VALID_ROLES
        \<and> (\<exists>i j. ROLE_RANK ''owner'' = Some i \<and> ROLE_RANK ''manager'' = Some j \<and> j \<le> i)"
    by (simp add: member_path_def role_path_def VALID_ROLES_def ROLE_RANK_def)
  then have c: "requireTenantAccess ?db ''u1'' ''t1'' ''manager'' = Inr ''owner''"
    using requireTenantAccess_fail_closed[OF ok, of ?db, THEN conjunct2, THEN conjunct2] by blast
  show ?thesis by (intro conjI ok a b c)
qed

subsection \<open>The lease lock\<close>

text \<open>
  What holds of the lock: an acquire attempt on a stored record that has not expired
  (\<open>now < expiresAt\<close>, the clock not being negative) returns no token and leaves the record
  as it is; an acquire attempt when there is no record, or when \<open>now \<ge> expiresAt\<close>,
  returns the token of the attempt and writes it with \<open>expiresAt = now' + TTL\<close>; a
  release with a token other than the stored one changes nothing.
\<close>

lemma acquire_and_stale_release:
  "(node = Some c \<and> 0 \<le> now \<and> now < expiresAt c \<longrightarrow>
      acquireLock throws token now now' node = (None, node))
   \<and> ((node = None \<or> (node = Some c \<and> expiresAt c \<le> now)) \<and> \<not> throws \<longrightarrow>
      acquireLock throws token now now' node
        = (Some token, Some \<lparr>lockId = token, expiresAt = now' + TTL_MS\<rparr>))
   \<and> (node = Some c \<and> lockId c \<noteq> token \<longrightarrow> releaseLock throws token node = node)"
  by (auto simp: acquireLock_def acquire_update_def releaseLock_def release_transaction
      acquire_transaction)

text \<open>A release changes nothing, whatever the token and the record.\<close>

lemma release_keeps_node: "releaseLock throws token node = node"
  by (simp add: releaseLock_def release_transaction)

text \<open>
  Claim C4. The claim holds for the acquire and for a release with another token. It
  says that a release with the stored token deletes the record; the code does not: the
  update function of \<open>releaseLock\<close> answers \<open>undefined\<close> on \<open>null\<close>, the transaction
  aborts on its first run, and the record the same request acquired stays, here until
  its expiry at 1201001.
\<close>

theorem release_with_matching_token_keeps_record:
  "acquireLock False ''b'' 601000 601001 None
     = (Some ''b'', Some \<lparr>lockId = ''b'', expiresAt = 1201001\<rparr>)
   \<and> release_update ''b'' None = TxAbort
   \<and> releaseLock False ''b'' (Some \<lparr>lockId = ''b'', expiresAt = 1201001\<rparr>)
     = Some \<lparr>lockId = ''b'', expiresAt = 1201001\<rparr>"
  by (simp add: acquireLock_def acquire_transaction acquire_update_def TTL_MS_def
      release_update_def releaseLock_def release_transaction)

subsection \<open>Calendar features\<close>

lemmas date_eval =
  new_Date_def date_shape_def is_digit_def number_of_digits_def digit_val_def
  days_from_civil_def Let_def

text \<open>The days that follow the dates of the eve table, in the order of the table.\<close>

lemma eves_precede:
  "list_all2 day_before IL_HOLIDAY_EVES
     [''2024-10-02'', ''2024-10-11'', ''2024-10-16'', ''2024-10-23'', ''2025-03-13'',
      ''2025-04-12'', ''2025-04-18'', ''2025-05-12'', ''2025-06-01'', ''2025-08-03'',
      ''2025-09-22'', ''2025-10-01'', ''2025-10-06'', ''2025-10-13'', ''2026-03-02'',
      ''2026-03-31'', ''2026-04-06'', ''2026-04-28'', ''2026-05-19'', ''2026-07-23'',
      ''2026-09-10'', ''2026-09-19'', ''2026-09-24'', ''2026-10-01'']"
  unfolding IL_HOLIDAY_EVES_def
  by (simp add: day_before_def date_eval)

lemma next_days_listed:
  "set [''2024-10-02'', ''2024-10-11'', ''2024-10-16'', ''2024-10-23'', ''2025-03-13'',
      ''2025-04-12'', ''2025-04-18'', ''2025-05-12'', ''2025-06-01'', ''2025-08-03'',
      ''2025-09-22'', ''2025-10-01'', ''2025-10-06'', ''2025-10-13'', ''2026-03-02'',
      ''2026-03-31'', ''2026-04-06'', ''2026-04-28'', ''2026-05-19'', ''2026-07-23'',
      ''2026-09-10'', ''2026-09-19'', ''2026-09-24'', ''2026-10-01''] \<subseteq> set IL_HOLIDAYS"
  unfolding IL_HOLIDAYS_def by simp

lemma eve_has_holiday:
  assumes "e \<in> set IL_HOLIDAY_EVES"
  shows "\<exists>h \<in> set IL_HOLIDAYS. day_before e h"
proof -
  from assms obtain i where i: "i < length IL_HOLIDAY_EVES" "IL_HOLIDAY_EVES ! i = e"
    by (auto simp: in_set_conv_nth)
  from eves_precede obtain hs where hs: "list_all2 day_before IL_HOLIDAY_EVES hs"
    "set hs \<subseteq> set IL_HOLIDAYS"
    using next_days_listed by blast
  from hs(1) i have "day_before e (hs ! i)" "i < length hs"
    by (auto simp: list_all2_conv_all_nth)
  with hs(2) show ?thesis by (meson nth_mem subsetD)
qed

text \<open>
  Claim C8, as stated: every date one day before a listed holiday has \<open>holiday_eve\<close>
  true. It fails on 2024-10-02: the next day, 2024-10-03, is in the holiday table, and
  2024-10-02 is in neither eve table.
\<close>

theorem holiday_eve_counterexample:
  "''2024-10-03'' \<in> set IL_HOLIDAYS
   \<and> day_before ''2024-10-02'' ''2024-10-03''
   \<and> \<not> holiday_eve (buildCalendar ''2024-10-02'')"
  by (simp add: IL_HOLIDAYS_def IL_HOLIDAY_EVES_def NEW_YEAR_EVES_def buildCalendar_def
      day_before_def date_eval)

text \<open>
  Claim C8, amended. \<open>buildCalendar\<close> depends on the date string only; \<open>holiday\<close> is
  true exactly for the dates of the holiday table; \<open>holiday_eve\<close> is true exactly for
  the dates of the holiday-eve table and of the new-year-eve table; \<open>weekend\<close> is true
  exactly when the day-of-week number is 5 or 6; and every date of the holiday-eve table
  is one day before a date of the holiday table.
\<close>

theorem calendar_flags:
  "holiday (buildCalendar date) = (date \<in> set IL_HOLIDAYS)
   \<and> holiday_eve (buildCalendar date)
        = (date \<in> set IL_HOLIDAY_EVES \<or> date \<in> set NEW_YEAR_EVES)
   \<and> weekend (buildCalendar date)
        = (dow (buildCalendar date) = Some 5 \<or> dow (buildCalendar date) = Some 6)
   \<and> (\<forall>e \<in> set IL_HOLIDAY_EVES. \<exists>h \<in> set IL_HOLIDAYS. day_before e h)"
  using eve_has_holiday by (simp add: buildCalendar_def Let_def)

theorem calendar_flags_witness:
  "''2025-10-05'' \<in> set IL_HOLIDAY_EVES
   \<and> (\<exists>h. h \<in> set IL_HOLIDAYS \<and> day_before ''2025-10-05'' h)
   \<and> holiday_eve (buildCalendar ''2025-10-05'')
   \<and> holiday (buildCalendar ''2025-10-06'')
   \<and> dow (buildCalendar ''2024-10-18'') = Some 5
   \<and> weekend (buildCalendar ''2024-10-18'')
   \<and> dow (buildCalendar ''2024-10-20'') = Some 0
   \<and> \<not> weekend (buildCalendar ''2024-10-20'')"
proof -
  have e: "''2025-10-05'' \<in> set IL_HOLIDAY_EVES"
    by (simp add: IL_HOLIDAY_EVES_def)
  have h: "''2025-10-06'' \<in> set IL_HOLIDAYS"
    by (simp add: IL_HOLIDAYS_def)
  have d5: "dow (buildCalendar ''2024-10-18'') = Some 5"
    by (simp add: buildCalendar_def getUTCDay_def date_eval)
  have d0: "dow (buildCalendar ''2024-10-20'') = Some 0"
    by (simp add: buildCalendar_def getUTCDay_def date_eval)
  have 1: "\<exists>h. h \<in> set IL_HOLIDAYS \<and> day_before ''2025-10-05'' h"
    using calendar_flags[of "''2025-10-05''"] e by blast
  have 2: "holiday_eve (buildCalendar ''2025-10-05'')"
    using calendar_flags[of "''2025-10-05''"] e by blast
  have 3: "holiday (buildCalendar ''2025-10-06'')"
    using calendar_flags[of "''2025-10-06''"] h by blast
  have 4: "weekend (buildCalendar ''2024-10-18'')"
    using calendar_flags[of "''2024-10-18''"] d5 by blast
  have 5: "\<not> weekend (buildCalendar ''2024-10-20'')"
    using calendar_flags[of "''2024-10-20''"] d0 by simp
  show ?thesis by (intro conjI e 1 2 3 d5 4 d0 5)
qed

subsection \<open>The daily document\<close>

lemma build_rejected:
  assumes "snd (fetchBeecommDaily toNumber (beecomm_res net) date) = Inl e"
  shows "snd (buildDailyDoc toNumber key net now nowIso tenant date) = Inl e"
  using assms by (simp add: buildDailyDoc_def case_prod_beta)

lemma build_fulfilled:
  assumes "snd (fetchBeecommDaily toNumber (beecomm_res net) date) = Inr b"
  shows "\<exists>d. buildDailyDoc toNumber key net now nowIso tenant date =
           (fst (fetchBeecommDaily toNumber (beecomm_res net) date)
              @ fst (fetchTabitHours toNumber key (tabit_res net) date)
              @ fst (fetchWeather toNumber (weather_res net) date)
              @ fst (fetchOrefAlerts (oref_res net) date),
            Inr (''tenants/'' @ tenant @ ''/analytics/daily/'' @ BRANCH_ID @ ''/'' @ date, d))
         \<and> revenue_total d = or_zero (bc_revenue_total b)
         \<and> tickets d = or_zero (bc_tickets b)
         \<and> avg_check d = avg_check_of (or_zero (bc_revenue_total b)) (or_zero (bc_tickets b))
         \<and> staffing d = (case snd (fetchTabitHours toNumber key (tabit_res net) date) of
                           Inr (Some v) \<Rightarrow> v | _ \<Rightarrow> \<lparr>total_hours = None\<rparr>)
         \<and> weather d = (case snd (fetchWeather toNumber (weather_res net) date) of
                          Inr v \<Rightarrow> Some v | Inl e \<Rightarrow> None)
         \<and> alerts d = (case snd (fetchOrefAlerts (oref_res net) date) of
                         Inr v \<Rightarrow> Some v | Inl e \<Rightarrow> None)
         \<and> src_beecomm (sources (meta d)) = ''ok''
         \<and> src_tabit (sources (meta d)) =
              (case snd (fetchTabitHours toNumber key (tabit_res net) date) of
                 Inr (Some v) \<Rightarrow> ''ok'' | _ \<Rightarrow> ''missing'')
         \<and> src_weather (sources (meta d)) =
              (case snd (fetchWeather toNumber (weather_res net) date) of
                 Inr v \<Rightarrow> ''ok'' | Inl e \<Rightarrow> ''missing'')
         \<and> src_oref (sources (meta d)) =
              (case snd (fetchOrefAlerts (oref_res net) date) of
                 Inr v \<Rightarrow> ''ok'' | Inl e \<Rightarrow> ''missing'')"
  using assms
  by (simp add: buildDailyDoc_def case_prod_beta Let_def split: sum.splits option.splits)

lemma beecomm_thrown:
  "snd (fetchBeecommDaily toNumber res date) = Inl (Thrown src reason) \<longleftrightarrow>
     src = ''beecomm'' \<and>
     (case res of
        NetworkError \<Rightarrow> reason = ''network''
      | Aborted \<Rightarrow> reason = ''timeout''
      | Response st b \<Rightarrow> \<not> ok st \<and> reason = ''http_'' @ digits st)"
  by (auto simp: fetchBeecommDaily_def split: http_result.splits body.splits)

lemma optional_failed:
  assumes "failed res"
  shows "\<exists>e. snd (fetchWeather toNumber res date) = Inl e"
    and "\<exists>e. snd (fetchOrefAlerts res date) = Inl e"
    and "snd (fetchTabitHours toNumber key res date) = Inr None"
  using assms
  by (auto simp: failed_def fetchWeather_def fetchOrefAlerts_def fetchTabitHours_def
      split: http_result.splits)




text \<open>
  Claim C5. \<open>buildDailyDoc\<close> rejects with a structured \<open>{source, reason}\<close> exactly when
  the required provider fails by a network error, a timeout or a status that is not a
  success, the source being \<open>beecomm\<close> and the reason \<open>network\<close>, \<open>timeout\<close> or
  \<open>http_<status>\<close>; it rejects at all only when the fetch of the required provider
  rejects, whatever the optional providers do. In a document that is built, a failed
  weather or alert provider leaves its block \<open>null\<close> and its status \<open>missing\<close>, a failed
  staffing provider leaves \<open>{total_hours: null}\<close> and \<open>missing\<close>, and every block and
  status is determined by the answer of its own provider alone.
\<close>

theorem build_fails_only_on_required_source:
  "(\<forall>src reason.
      snd (buildDailyDoc toNumber key net now nowIso tenant date) = Inl (Thrown src reason) \<longleftrightarrow>
        src = ''beecomm'' \<and>
        (case beecomm_res net of
           NetworkError \<Rightarrow> reason = ''network''
         | Aborted \<Rightarrow> reason = ''timeout''
         | Response st b \<Rightarrow> \<not> ok st \<and> reason = ''http_'' @ digits st))
   \<and> ((\<exists>e. snd (buildDailyDoc toNumber key net now nowIso tenant date) = Inl e) \<longleftrightarrow>
        (\<exists>e. snd (fetchBeecommDaily toNumber (beecomm_res net) date) = Inl e))
   \<and> (\<forall>path d. snd (buildDailyDoc toNumber key net now nowIso tenant date) = Inr (path, d) \<longrightarrow>
        (failed (tabit_res net) \<longrightarrow>
           staffing d = \<lparr>total_hours = None\<rparr> \<and> src_tabit (sources (meta d)) = ''missing'')
        \<and> (failed (weather_res net) \<longrightarrow>
           weather d = None \<and> src_weather (sources (meta d)) = ''missing'')
        \<and> (failed (oref_res net) \<longrightarrow>
           alerts d = None \<and> src_oref (sources (meta d)) = ''missing'')
        \<and> src_beecomm (sources (meta d)) = ''ok''
        \<and> staffing d = (case snd (fetchTabitHours toNumber key (tabit_res net) date) of
                          Inr (Some v) \<Rightarrow> v | _ \<Rightarrow> \<lparr>total_hours = None\<rparr>)
        \<and> src_tabit (sources (meta d)) =
             (case snd (fetchTabitHours toNumber key (tabit_res net) date) of
                Inr (Some v) \<Rightarrow> ''ok'' | _ \<Rightarrow> ''missing'')
        \<and> weather d = (case snd (fetchWeather toNumber (weather_res net) date) of
                         Inr v \<Rightarrow> Some v | Inl e \<Rightarrow> None)
        \<and> src_weather (sources (meta d)) =
             (case snd (fetchWeather toNumber (weather_res net) date) of
                Inr v \<Rightarrow> ''ok'' | Inl e \<Rightarrow> ''missing'')
        \<and> alerts d = (case snd (fetchOrefAlerts (oref_res net) date) of
                        Inr v \<Rightarrow> Some v | Inl e \<Rightarrow> None)
        \<and> src_oref (sources (meta d)) =
             (case snd (fetchOrefAlerts (oref_res net) date) of
                Inr v \<Rightarrow> ''ok'' | Inl e \<Rightarrow> ''missing''))"
proof -
  let ?B = "snd (fetchBeecommDaily toNumber (beecomm_res net) date)"
  let ?R = "snd (buildDailyDoc toNumber key net now nowIso tenant date)"
  show ?thesis
  proof (cases ?B)
    case (Inl e)
    then have r: "?R = Inl e" by (rule build_rejected)
    have 1: "\<forall>src reason. ?R = Inl (Thrown src reason) \<longleftrightarrow>
        src = ''beecomm'' \<and>
        (case beecomm_res net of
           NetworkError \<Rightarrow> reason = ''network''
         | Aborted \<Rightarrow> reason = ''timeout''
         | Response st b \<Rightarrow> \<not> ok st \<and> reason = ''http_'' @ digits st)"
      using beecomm_thrown[of toNumber "beecomm_res net" date] unfolding r Inl by simp
    from 1 r Inl show ?thesis by simp
  next
    case (Inr b)
    from build_fulfilled[OF Inr, of key now nowIso tenant]
    obtain d0 where d0: "?R = Inr (''tenants/'' @ tenant @ ''/analytics/daily/'' @ BRANCH_ID @ ''/'' @ date, d0)"
      and st: "staffing d0 = (case snd (fetchTabitHours toNumber key (tabit_res net) date) of
                          Inr (Some v) \<Rightarrow> v | _ \<Rightarrow> \<lparr>total_hours = None\<rparr>)"
      and stt: "src_tabit (sources (meta d0)) =
             (case snd (fetchTabitHours toNumber key (tabit_res net) date) of
                Inr (Some v) \<Rightarrow> ''ok'' | _ \<Rightarrow> ''missing'')"
      and w: "weather d0 = (case snd (fetchWeather toNumber (weather_res net) date) of
                         Inr v \<Rightarrow> Some v | Inl e \<Rightarrow> None)"
      and wt: "src_weather (sources (meta d0)) =
             (case snd (fetchWeather toNumber (weather_res net) date) of
                Inr v \<Rightarrow> ''ok'' | Inl e \<Rightarrow> ''missing'')"
      and a: "alerts d0 = (case snd (fetchOrefAlerts (oref_res net) date) of
                        Inr v \<Rightarrow> Some v | Inl e \<Rightarrow> None)"
      and at: "src_oref (sources (meta d0)) =
             (case snd (fetchOrefAlerts (oref_res net) date) of
                Inr v \<Rightarrow> ''ok'' | Inl e \<Rightarrow> ''missing'')"
      and bt: "src_beecomm (sources (meta d0)) = ''ok''"
      by (auto simp: prod_eq_iff)
    have 1: "\<forall>src reason. ?R = Inl (Thrown src reason) \<longleftrightarrow>
        src = ''beecomm'' \<and>
        (case beecomm_res net of
           NetworkError \<Rightarrow> reason = ''network''
         | Aborted \<Rightarrow> reason = ''timeout''
         | Response st b \<Rightarrow> \<not> ok st \<and> reason = ''http_'' @ digits st)"
      using beecomm_thrown[of toNumber "beecomm_res net" date] unfolding d0 Inr by simp
    have 2: "(\<exists>e. ?R = Inl e) \<longleftrightarrow> (\<exists>e. ?B = Inl e)"
      unfolding d0 Inr by simp
    have ft: "failed (tabit_res net) \<Longrightarrow>
           staffing d0 = \<lparr>total_hours = None\<rparr> \<and> src_tabit (sources (meta d0)) = ''missing''"
      using optional_failed(3)[of "tabit_res net" toNumber key date] st stt by simp
    have fw: "failed (weather_res net) \<Longrightarrow>
           weather d0 = None \<and> src_weather (sources (meta d0)) = ''missing''"
      using optional_failed(1)[of "weather_res net" toNumber date] w wt by auto
    have fo: "failed (oref_res net) \<Longrightarrow>
           alerts d0 = None \<and> src_oref (sources (meta d0)) = ''missing''"
      using optional_failed(2)[of "oref_res net" date] a at by auto
    have 3: "\<forall>path d. ?R = Inr (path, d) \<longrightarrow> d = d0"
      unfolding d0 by simp
    show ?thesis
      apply (intro conjI 1 2 allI impI)
      using 3 ft fw fo st stt w wt a at bt by blast+
  qed
qed

lemma example_beecomm:
  "snd (fetchBeecommDaily (\<lambda>j. case j of JNum x \<Rightarrow> Some x | _ \<Rightarrow> None)
         (Response 200 (Parsed (JObj [(''total_sales'', JNum 1005), (''transaction_count'', JNum 8)])))
         date)
   = Inr \<lparr>bc_revenue_total = Some 1005, bc_tickets = Some 8, bc_revenue_dine_in = None,
          bc_revenue_delivery = None, bc_revenue_takeaway = None,
          bc_hourly = map (\<lambda>h. (h, 0)) HOURS\<rparr>"
  by (simp add: fetchBeecommDaily_def ok_def numOrNull_def nullish_def extractHourly_def
      opt_prop_def or_zero_def)

lemma digits_503: "digits 503 = ''503''"
  by (simp add: digits.simps)

theorem build_fails_only_on_required_source_witness:
  "snd (buildDailyDoc (\<lambda>j. case j of JNum x \<Rightarrow> Some x | _ \<Rightarrow> None) (Some ''k'')
          \<lparr>beecomm_res = Response 503 (Unparsable []), tabit_res = Aborted,
           weather_res = Aborted, oref_res = Aborted\<rparr> 0 [] ''t1'' ''2024-10-18'')
     = Inl (Thrown ''beecomm'' ''http_503'')
   \<and> (\<exists>path d.
        snd (buildDailyDoc (\<lambda>j. case j of JNum x \<Rightarrow> Some x | _ \<Rightarrow> None) (Some ''k'')
              \<lparr>beecomm_res = Response 200
                 (Parsed (JObj [(''total_sales'', JNum 1005), (''transaction_count'', JNum 8)])),
               tabit_res = Aborted, weather_res = Response 503 (Unparsable []),
               oref_res = NetworkError\<rparr> 0 [] ''t1'' ''2024-10-18'') = Inr (path, d)
        \<and> staffing d = \<lparr>total_hours = None\<rparr> \<and> weather d = None \<and> alerts d = None
        \<and> sources (meta d) = \<lparr>src_beecomm = ''ok'', src_weather = ''missing'',
                                src_oref = ''missing'', src_tabit = ''missing''\<rparr>)"
proof -
  let ?num = "\<lambda>j. case j of JNum x \<Rightarrow> Some x | _ \<Rightarrow> None"
  let ?bad = "\<lparr>beecomm_res = Response 503 (Unparsable []), tabit_res = Aborted,
           weather_res = Aborted, oref_res = Aborted\<rparr>"
  let ?net = "\<lparr>beecomm_res = Response 200
                 (Parsed (JObj [(''total_sales'', JNum 1005), (''transaction_count'', JNum 8)])),
               tabit_res = Aborted, weather_res = Response 503 (Unparsable []),
               oref_res = NetworkError\<rparr>"
  have 1: "snd (buildDailyDoc ?num (Some ''k'') ?bad 0 [] ''t1'' ''2024-10-18'')
             = Inl (Thrown ''beecomm'' ''http_503'')"
    using build_fails_only_on_required_source
      [of ?num "Some ''k''" ?bad 0 "[]" "''t1''" "''2024-10-18''", THEN conjunct1]
    by (simp add: ok_def digits_503)
  from build_fulfilled[of ?num ?net "''2024-10-18''" _ "Some ''k''" 0 "[]" "''t1''"] example_beecomm
  obtain path d where r: "snd (buildDailyDoc ?num (Some ''k'') ?net 0 [] ''t1'' ''2024-10-18'') = Inr (path, d)"
    by force
  have f: "failed (tabit_res ?net)" "failed (weather_res ?net)" "failed (oref_res ?net)"
    by (simp_all add: failed_def ok_def)
  note facts = build_fails_only_on_required_source
      [of ?num "Some ''k''" ?net 0 "[]" "''t1''" "''2024-10-18''", THEN conjunct2, THEN conjunct2,
       rule_format, OF r]
  from facts f have "staffing d = \<lparr>total_hours = None\<rparr>" "weather d = None" "alerts d = None"
    "src_beecomm (sources (meta d)) = ''ok''" "src_weather (sources (meta d)) = ''missing''"
    "src_oref (sources (meta d)) = ''missing''" "src_tabit (sources (meta d)) = ''missing''"
    by blast+
  then have "staffing d = \<lparr>total_hours = None\<rparr> \<and> weather d = None \<and> alerts d = None
        \<and> sources (meta d) = \<lparr>src_beecomm = ''ok'', src_weather = ''missing'',
                                src_oref = ''missing'', src_tabit = ''missing''\<rparr>"
    by (cases "sources (meta d)") simp
  with r 1 show ?thesis by blast
qed



text \<open>
  Claim C10. With no \<open>TABIT_API_KEY\<close> (unset or empty), \<open>fetchTabitHours\<close> resolves to
  \<open>null\<close> and requests nothing. A document built then has \<open>staffing = {total_hours: null}\<close>
  and \<open>meta.sources.tabit = "missing"\<close>, and the requests of the build are those of the
  three other fetchers. In every document that is built, \<open>meta.sources.tabit\<close> is \<open>ok\<close>
  exactly when the staffing fetch fulfils with a value that is not \<open>null\<close>.
\<close>

theorem tabit_unconfigured_is_missing:
  "(key = None \<or> key = Some [] \<longrightarrow> fetchTabitHours toNumber key res date = ([], Inr None))
   \<and> (\<forall>path d. snd (buildDailyDoc toNumber key net now nowIso tenant date) = Inr (path, d) \<longrightarrow>
        (key = None \<or> key = Some [] \<longrightarrow>
           staffing d = \<lparr>total_hours = None\<rparr>
           \<and> src_tabit (sources (meta d)) = ''missing''
           \<and> fst (buildDailyDoc toNumber key net now nowIso tenant date)
               = fst (fetchBeecommDaily toNumber (beecomm_res net) date)
                 @ fst (fetchWeather toNumber (weather_res net) date)
                 @ fst (fetchOrefAlerts (oref_res net) date))
        \<and> (src_tabit (sources (meta d)) = ''ok'' \<longleftrightarrow>
             (\<exists>v. snd (fetchTabitHours toNumber key (tabit_res net) date) = Inr (Some v))))"
proof (intro conjI allI impI)
  assume "key = None \<or> key = Some []"
  then show "fetchTabitHours toNumber key res date = ([], Inr None)"
    by (auto simp: fetchTabitHours_def)
next
  fix path d
  let ?B = "snd (fetchBeecommDaily toNumber (beecomm_res net) date)"
  let ?T = "fetchTabitHours toNumber key (tabit_res net) date"
  assume r: "snd (buildDailyDoc toNumber key net now nowIso tenant date) = Inr (path, d)"
  have "\<exists>b. ?B = Inr b"
  proof (cases ?B)
    case (Inl e)
    from build_rejected[OF this, of key now nowIso tenant] r show ?thesis by simp
  next
    case (Inr b)
    then show ?thesis by blast
  qed
  then obtain b where b: "?B = Inr b" by blast
  from build_fulfilled[OF b, of key now nowIso tenant] r
  have calls: "fst (buildDailyDoc toNumber key net now nowIso tenant date)
                 = fst (fetchBeecommDaily toNumber (beecomm_res net) date) @ fst ?T
                   @ fst (fetchWeather toNumber (weather_res net) date)
                   @ fst (fetchOrefAlerts (oref_res net) date)"
    and st: "staffing d = (case snd ?T of Inr (Some v) \<Rightarrow> v | _ \<Rightarrow> \<lparr>total_hours = None\<rparr>)"
    and stt: "src_tabit (sources (meta d)) =
                (case snd ?T of Inr (Some v) \<Rightarrow> ''ok'' | _ \<Rightarrow> ''missing'')"
    by (auto simp: prod_eq_iff)
  show "src_tabit (sources (meta d)) = ''ok'' \<longleftrightarrow> (\<exists>v. snd ?T = Inr (Some v))"
    unfolding stt by (simp split: sum.splits option.splits)
  assume "key = None \<or> key = Some []"
  then have t: "?T = ([], Inr None)" by (auto simp: fetchTabitHours_def)
  show "staffing d = \<lparr>total_hours = None\<rparr>" unfolding st t by simp
  show "src_tabit (sources (meta d)) = ''missing''" unfolding stt t by simp
  show "fst (buildDailyDoc toNumber key net now nowIso tenant date)
               = fst (fetchBeecommDaily toNumber (beecomm_res net) date)
                 @ fst (fetchWeather toNumber (weather_res net) date)
                 @ fst (fetchOrefAlerts (oref_res net) date)"
    unfolding calls t by simp
qed

theorem tabit_unconfigured_is_missing_witness:
  "fetchTabitHours (\<lambda>j. case j of JNum x \<Rightarrow> Some x | _ \<Rightarrow> None) None
      (Response 200 (Parsed (JObj [(''total_hours'', JNum 40)]))) ''2024-10-18'' = ([], Inr None)
   \<and> (\<exists>path d.
        snd (buildDailyDoc (\<lambda>j. case j of JNum x \<Rightarrow> Some x | _ \<Rightarrow> None) None
              \<lparr>beecomm_res = Response 200
                 (Parsed (JObj [(''total_sales'', JNum 1005), (''transaction_count'', JNum 8)])),
               tabit_res = Response 200 (Parsed (JObj [(''total_hours'', JNum 40)])),
               weather_res = Aborted, oref_res = Aborted\<rparr>
              0 [] ''t1'' ''2024-10-18'') = Inr (path, d)
        \<and> staffing d = \<lparr>total_hours = None\<rparr>
        \<and> src_tabit (sources (meta d)) = ''missing'')
   \<and> (\<exists>path d.
        snd (buildDailyDoc (\<lambda>j. case j of JNum x \<Rightarrow> Some x | _ \<Rightarrow> None) (Some ''k'')
              \<lparr>beecomm_res = Response 200
                 (Parsed (JObj [(''total_sales'', JNum 1005), (''transaction_count'', JNum 8)])),
               tabit_res = Response 200 (Parsed (JObj [(''total_hours'', JNum 40)])),
               weather_res = Aborted, oref_res = Aborted\<rparr>
              0 [] ''t1'' ''2024-10-18'') = Inr (path, d)
        \<and> src_tabit (sources (meta d)) = ''ok'')"
proof -
  let ?num = "\<lambda>j. case j of JNum x \<Rightarrow> Some x | _ \<Rightarrow> None"
  let ?tab = "Response 200 (Parsed (JObj [(''total_hours'', JNum 40)]))"
  let ?net = "\<lparr>beecomm_res = Response 200
                 (Parsed (JObj [(''total_sales'', JNum 1005), (''transaction_count'', JNum 8)])),
               tabit_res = ?tab, weather_res = Aborted, oref_res = Aborted\<rparr>"
  have none: "(None :: string option) = None \<or> (None :: string option) = Some []" by simp
  have 1: "fetchTabitHours ?num None ?tab ''2024-10-18'' = ([], Inr None)"
    using tabit_unconfigured_is_missing
      [of None ?num ?tab "''2024-10-18''" ?net 0 "[]" "''t1''", THEN conjunct1] none
    by blast
  from build_fulfilled[of ?num ?net "''2024-10-18''" _ None 0 "[]" "''t1''"] example_beecomm
  obtain path d where r: "snd (buildDailyDoc ?num None ?net 0 [] ''t1'' ''2024-10-18'') = Inr (path, d)"
    by force
  from tabit_unconfigured_is_missing
      [of None ?num ?tab "''2024-10-18''" ?net 0 "[]" "''t1''", THEN conjunct2, rule_format, OF r]
    none
  have 2: "staffing d = \<lparr>total_hours = None\<rparr> \<and> src_tabit (sources (meta d)) = ''missing''"
    by blast
  from build_fulfilled[of ?num ?net "''2024-10-18''" _ "Some ''k''" 0 "[]" "''t1''"] example_beecomm
  obtain path' d' where r': "snd (buildDailyDoc ?num (Some ''k'') ?net 0 [] ''t1'' ''2024-10-18'') = Inr (path', d')"
    by force
  have ful: "\<exists>v. snd (fetchTabitHours ?num (Some ''k'') (tabit_res ?net) ''2024-10-18'') = Inr (Some v)"
    by (simp add: fetchTabitHours_def ok_def)
  from tabit_unconfigured_is_missing
      [of "Some ''k''" ?num ?tab "''2024-10-18''" ?net 0 "[]" "''t1''", THEN conjunct2,
       rule_format, OF r'] ful
  have 3: "src_tabit (sources (meta d')) = ''ok''"
    by blast
  from 1 r 2 r' 3 show ?thesis by blast
qed

subsection \<open>The scheduled builder fails closed\<close>

lemma authorized_iff: "authorized secret incoming \<longleftrightarrow> secret = incoming"
  by (auto simp: authorized_def timingSafeEqual_def)

lemma daily_unset:
  assumes "env_secret = None \<or> env_secret = Some []"
  shows "daily_builder env_secret x_header auth_header query_date yesterday tenants build set_err
           = refuse 503 []"
  using assms by (auto simp: daily_builder_def)

lemma daily_mismatch:
  assumes "env_secret = Some s" and "s \<noteq> []" and "supplied_secret x_header auth_header \<noteq> s"
  shows "daily_builder env_secret x_header auth_header query_date yesterday tenants build set_err
           = refuse 404 []"
  using assms by (simp add: daily_builder_def authorized_iff)

text \<open>
  Claim C6. When \<open>CRON_SECRET\<close> is unset or empty every request is answered 503 and
  nothing is read or built. When it is set and the supplied secret differs from it the
  answer is 404, with no body lists, and nothing is read or built. The comparison, made
  through \<open>timingSafeEqual\<close> on buffers of equal length, holds exactly when the two
  secrets are equal. So the tenants are read, and any tenant built, only when the secret
  is set and matches.
\<close>

theorem daily_builder_fails_closed:
  "(env_secret = None \<or> env_secret = Some [] \<longrightarrow>
      daily_builder env_secret x_header auth_header query_date yesterday tenants build set_err
        = \<lparr>status = 503, built = [], skipped = [], effects = []\<rparr>)
   \<and> (\<forall>s. env_secret = Some s \<and> s \<noteq> [] \<and> supplied_secret x_header auth_header \<noteq> s \<longrightarrow>
      daily_builder env_secret x_header auth_header query_date yesterday tenants build set_err
        = \<lparr>status = 404, built = [], skipped = [], effects = []\<rparr>)
   \<and> (authorized secret incoming \<longleftrightarrow> secret = incoming)
   \<and> (effects (daily_builder env_secret x_header auth_header query_date yesterday tenants
                  build set_err) \<noteq> []
       \<or> built (daily_builder env_secret x_header auth_header query_date yesterday tenants
                  build set_err) \<noteq> []
       \<or> skipped (daily_builder env_secret x_header auth_header query_date yesterday tenants
                  build set_err) \<noteq> [] \<longrightarrow>
      (\<exists>s. env_secret = Some s \<and> s \<noteq> [] \<and> supplied_secret x_header auth_header = s))"
proof (intro conjI allI impI)
  assume "env_secret = None \<or> env_secret = Some []"
  then show "daily_builder env_secret x_header auth_header query_date yesterday tenants build set_err
        = \<lparr>status = 503, built = [], skipped = [], effects = []\<rparr>"
    by (simp add: daily_unset refuse_def)
next
  fix s
  assume "env_secret = Some s \<and> s \<noteq> [] \<and> supplied_secret x_header auth_header \<noteq> s"
  then show "daily_builder env_secret x_header auth_header query_date yesterday tenants build set_err
        = \<lparr>status = 404, built = [], skipped = [], effects = []\<rparr>"
    by (simp add: daily_mismatch refuse_def)
next
  show "authorized secret incoming \<longleftrightarrow> secret = incoming" by (rule authorized_iff)
next
  let ?r = "daily_builder env_secret x_header auth_header query_date yesterday tenants build set_err"
  assume a: "effects ?r \<noteq> [] \<or> built ?r \<noteq> [] \<or> skipped ?r \<noteq> []"
  show "\<exists>s. env_secret = Some s \<and> s \<noteq> [] \<and> supplied_secret x_header auth_header = s"
  proof (rule ccontr)
    assume n: "\<nexists>s. env_secret = Some s \<and> s \<noteq> [] \<and> supplied_secret x_header auth_header = s"
    have "?r = refuse 503 [] \<or> ?r = refuse 404 []"
    proof (cases env_secret)
      case None
      then have "?r = refuse 503 []" by (simp add: daily_unset)
      then show ?thesis by (rule disjI1)
    next
      case (Some s)
      show ?thesis
      proof (cases "s = []")
        case True
        with Some have "?r = refuse 503 []" by (simp add: daily_unset)
        then show ?thesis by (rule disjI1)
      next
        case False
        with Some n have "supplied_secret x_header auth_header \<noteq> s" by simp
        with Some False have "?r = refuse 404 []" by (rule daily_mismatch)
        then show ?thesis by (rule disjI2)
      qed
    qed
    with a show False by (auto simp: refuse_def)
  qed
qed

theorem daily_builder_fails_closed_witness:
  "daily_builder None (Some ''s3cret'') None None ''2024-10-17'' (Some [''t1''])
       (\<lambda>t d. Inr (''p'', ())) (\<lambda>p. None)
     = \<lparr>status = 503, built = [], skipped = [], effects = []\<rparr>
   \<and> daily_builder (Some ''s3cret'') (Some ''guess'') None None ''2024-10-17'' (Some [''t1''])
       (\<lambda>t d. Inr (''p'', ())) (\<lambda>p. None)
     = \<lparr>status = 404, built = [], skipped = [], effects = []\<rparr>
   \<and> effects (daily_builder (Some ''s3cret'') None (Some ''Bearer s3cret'') None ''2024-10-17''
       (Some [''t1'']) (\<lambda>t d. Inr (''p'', ())) (\<lambda>p. None)) \<noteq> []
   \<and> supplied_secret None (Some ''Bearer s3cret'') = ''s3cret''"
proof -
  let ?b = "\<lambda>(t :: string) (d :: string). (Inr (''p'', ()) :: fetch_error + string \<times> unit)"
  let ?s = "\<lambda>p :: string. (None :: string option)"
  have sup: "supplied_secret (Some ''guess'') None \<noteq> ''s3cret''"
    by (simp add: supplied_secret_def)
  have 1: "daily_builder None (Some ''s3cret'') None None ''2024-10-17'' (Some [''t1'']) ?b ?s
     = \<lparr>status = 503, built = [], skipped = [], effects = []\<rparr>"
    using daily_builder_fails_closed
      [of None "Some ''s3cret''" None None "''2024-10-17''" "Some [''t1'']" ?b ?s,
       THEN conjunct1] by simp
  have 2: "daily_builder (Some ''s3cret'') (Some ''guess'') None None ''2024-10-17'' (Some [''t1'']) ?b ?s
     = \<lparr>status = 404, built = [], skipped = [], effects = []\<rparr>"
    using daily_builder_fails_closed
      [of "Some ''s3cret''" "Some ''guess''" None None "''2024-10-17''" "Some [''t1'']" ?b ?s,
       THEN conjunct2, THEN conjunct1] sup by simp
  have 3: "effects (daily_builder (Some ''s3cret'') None (Some ''Bearer s3cret'') None
             ''2024-10-17'' (Some [''t1'']) ?b ?s) \<noteq> []"
    by (simp add: daily_builder_def authorized_iff supplied_secret_def strip_bearer_def
        is_space_def date_shape_def is_digit_def Let_def)
  from daily_builder_fails_closed
      [of "Some ''s3cret''" None "Some ''Bearer s3cret''" None "''2024-10-17''" "Some [''t1'']" ?b ?s,
       THEN conjunct2, THEN conjunct2, THEN conjunct2] 3
  have 4: "supplied_secret None (Some ''Bearer s3cret'') = ''s3cret''" by auto
  show ?thesis by (intro conjI 1 2 3 4)
qed

subsection \<open>The backfill bound and the release of the lock\<close>






lemma acquire_token:
  "fst (acquireLock acq_throws token now now' node) = Some l \<Longrightarrow>
     l = token \<and> snd (acquireLock acq_throws token now now' node)
                  = Some \<lparr>lockId = token, expiresAt = now' + TTL_MS\<rparr>"
  by (auto simp: acquireLock_def acquire_transaction acquire_update_def
      split: if_splits tx_update.splits)

lemma locked_refused:
  "fst (acquireLock acq_throws token now now' node) = None \<or> token = [] \<Longrightarrow>
     fst (backfill_locked acq_throws rel_throws token now now' node build set_err tenant dates)
       = refuse 409 [AcquireLock]"
proof -
  assume a: "fst (acquireLock acq_throws token now now' node) = None \<or> token = []"
  obtain r n where rn: "acquireLock acq_throws token now now' node = (r, n)"
    by (cases "acquireLock acq_throws token now now' node")
  show ?thesis
  proof (cases r)
    case None
    with rn show ?thesis by (simp add: backfill_locked_def)
  next
    case (Some l)
    with rn acquire_token[of acq_throws token now now' node l] have "l = token" by simp
    with a rn Some show ?thesis by (simp add: backfill_locked_def)
  qed
qed














end
